theory Spec2Isabelle
  imports Main "HOL-Library.Sublist" "HOL-Library.Multiset"
begin

section \<open>Content source of the documentation site\<close>

text \<open>
  A shallow embedding of \<^verbatim>\<open>src/app/source.ts\<close> (local and GitHub file acquisition,
  the mode dispatcher) and of the environment validation it imports
  (\<^verbatim>\<open>validateEnv\<close>, the file with the GitHub settings).

  Everything the TypeScript does besides returning a value is explicit:
  \<^item> a thrown exception or a rejected promise is \<open>Inl\<close> of an \<open>error\<close>;
  \<^item> console output and HTTP requests are recorded, in program order, in a list of
    \<open>event\<close>s returned next to the result;
  \<^item> what the code obtains from its surroundings (the network, the bundled local files,
    the front-matter and JSON parsers, path arithmetic that depends on the working
    directory, the locale) is a field of the record \<open>Runtime\<close>.
\<close>

subsection \<open>JavaScript values\<close>

text \<open>
  Parsed front-matter and parsed JSON. A number is kept as the decimal it was written as,
  mantissa and exponent; no operation of the program computes with it.
\<close>

datatype json =
    JNull
  | JBool bool
  | JNum int int
  | JStr string
  | JArr "json list"
  | JObj "(string \<times> json) list"

text \<open>
  A value of type \<^verbatim>\<open>string | undefined\<close> is a \<open>string option\<close>. \<open>truthy\<close> is the
  test \<^verbatim>\<open>if (x)\<close>: \<^verbatim>\<open>undefined\<close>, \<^verbatim>\<open>null\<close> and the empty string are falsy.
  \<open>template\<close> is the interpolation \<^verbatim>\<open>${x}\<close>.
\<close>

definition truthy :: "string option \<Rightarrow> bool" where
  "truthy x = (case x of None \<Rightarrow> False | Some s \<Rightarrow> s \<noteq> [])"

definition template :: "string option \<Rightarrow> string" where
  "template x = (case x of None \<Rightarrow> ''undefined'' | Some s \<Rightarrow> s)"

text \<open>\<^verbatim>\<open>Array.prototype.join\<close> on strings.\<close>

fun join :: "string \<Rightarrow> string list \<Rightarrow> string" where
  "join sep [] = []"
| "join sep [x] = x"
| "join sep (x # y # ys) = x @ sep @ join sep (y # ys)"

text \<open>The decimal rendering of a non-negative integer in a template literal.\<close>

definition digit_char :: "nat \<Rightarrow> char" where
  "digit_char d = ''0123456789'' ! d"

function show_nat :: "nat \<Rightarrow> string" where
  "show_nat n = (if n < 10 then [digit_char n] else show_nat (n div 10) @ [digit_char (n mod 10)])"
  by pat_completeness auto
termination
  by (relation "measure id") auto

declare show_nat.simps [simp del]

subsection \<open>\<^verbatim>\<open>parseInt\<close> with no radix argument\<close>

text \<open>
  The result is \<open>None\<close> for \<^verbatim>\<open>NaN\<close> and the integer otherwise. Header values are byte
  strings, so the white space that \<^verbatim>\<open>parseInt\<close> skips is TAB, LF, VT, FF, CR, SP and
  NBSP. The integer is exact here; JavaScript rounds it to a double beyond \<open>2^53\<close>, which
  never turns a non-zero value into zero, and \<^verbatim>\<open>-0 === 0\<close>.
\<close>

definition isStrWhiteSpace :: "char \<Rightarrow> bool" where
  "isStrWhiteSpace c = (of_char c \<in> {9, 10, 11, 12, 13, 32, 160 :: nat})"

definition digitValue :: "char \<Rightarrow> nat option" where
  "digitValue c =
     (let n = of_char c :: nat
      in if 48 \<le> n \<and> n \<le> 57 then Some (n - 48)
         else if 97 \<le> n \<and> n \<le> 122 then Some (n - 87)
         else if 65 \<le> n \<and> n \<le> 90 then Some (n - 55)
         else None)"

definition isDigitIn :: "nat \<Rightarrow> char \<Rightarrow> bool" where
  "isDigitIn radix c = (case digitValue c of None \<Rightarrow> False | Some d \<Rightarrow> d < radix)"

definition digitsValue :: "nat \<Rightarrow> string \<Rightarrow> nat" where
  "digitsValue radix z =
     foldl (\<lambda>a c. a * radix + (case digitValue c of None \<Rightarrow> 0 | Some d \<Rightarrow> d)) 0 z"

definition parseInt :: "string \<Rightarrow> int option" where
  "parseInt s =
     (let t = dropWhile isStrWhiteSpace s;
          neg = (take 1 t = ''-'');
          u = (if take 1 t = ''-'' \<or> take 1 t = ''+'' then drop 1 t else t);
          hex = (take 2 u = ''0x'' \<or> take 2 u = ''0X'');
          radix = (if hex then 16 else 10);
          v = (if hex then drop 2 u else u);
          z = takeWhile (isDigitIn radix) v
      in if z = [] then None
         else Some ((if neg then - 1 else 1) * int (digitsValue radix z)))"

text \<open>
  \<^verbatim>\<open>new Date(n * 1000)\<close>: the time value in milliseconds, \<open>None\<close> for an invalid date
  (\<^verbatim>\<open>NaN\<close>, or beyond the range of time values).
\<close>

definition newDate :: "int option \<Rightarrow> int option" where
  "newDate n =
     (case n of
        None \<Rightarrow> None
      | Some k \<Rightarrow> if \<bar>k * 1000\<bar> \<le> 8640000000000000 then Some (k * 1000) else None)"

subsection \<open>\<^verbatim>\<open>path.extname\<close>\<close>

text \<open>
  Node's POSIX \<^verbatim>\<open>path.extname\<close>: the part of the rightmost path component from its
  last dot on; empty when that component has no dot, when its only dot is its first
  character, or when it is \<^verbatim>\<open>..\<close>. Trailing slashes are ignored.
\<close>

definition lastComponent :: "string \<Rightarrow> string" where
  "lastComponent p =
     rev (takeWhile (\<lambda>c. c \<noteq> CHR ''/'') (dropWhile (\<lambda>c. c = CHR ''/'') (rev p)))"

definition extname :: "string \<Rightarrow> string" where
  "extname p =
     (let b = lastComponent p;
          e = rev (takeWhile (\<lambda>c. c \<noteq> CHR ''.'') (rev b))
      in if CHR ''.'' \<notin> set b then []
         else if Suc (length e) = length b then []
         else if b = ''..'' then []
         else CHR ''.'' # e)"

subsection \<open>Data model\<close>

datatype node_env = Development | Production

definition node_env_string :: "node_env \<Rightarrow> string" where
  "node_env_string m = (case m of Development \<Rightarrow> ''development'' | Production \<Rightarrow> ''production'')"

text \<open>The validated configuration, the value \<^verbatim>\<open>env\<close> exported by the environment module.\<close>

record Env =
  NODE_ENV :: node_env
  GITHUB_OWNER :: "string option"
  GITHUB_REPO :: "string option"
  GITHUB_CONTENT_PATH :: string
  GITHUB_CONTENT_BRANCH :: string
  GITHUB_TOKEN :: "string option"

datatype item_type = Blob | Tree | Commit

record GitHubTreeItem =
  path :: string
  mode :: string
  type :: item_type
  sha :: string
  size_opt :: "nat option"
  url :: string

record GitHubTreeResponse =
  sha :: string
  url :: string
  truncated :: bool
  tree :: "GitHubTreeItem list"

text \<open>
  \<open>reset\<close> is the time value of the \<^verbatim>\<open>Date\<close>; the three counters are what
  \<^verbatim>\<open>parseInt\<close> returned.
\<close>

record GitHubRateLimitInfo =
  limit :: "int option"
  remaining :: "int option"
  reset :: "int option"
  used :: "int option"

text \<open>
  \<open>Error\<close> stands for a plain \<^verbatim>\<open>Error\<close> and for any other thrown value that is not a
  \<^verbatim>\<open>GitHubApiError\<close> (a network failure, a parser's exception). The constructor of
  \<^verbatim>\<open>GitHubRateLimitError\<close> passes 403 to its superclass.
\<close>

datatype error =
    Error string
  | GitHubApiError string nat
  | GitHubRateLimitError string GitHubRateLimitInfo

fun statusCode :: "error \<Rightarrow> nat option" where
  "statusCode (Error m) = None"
| "statusCode (GitHubApiError m s) = Some s"
| "statusCode (GitHubRateLimitError m i) = Some 403"

fun error_message :: "error \<Rightarrow> string" where
  "error_message (Error m) = m"
| "error_message (GitHubApiError m s) = m"
| "error_message (GitHubRateLimitError m i) = m"

text \<open>
  A virtual file \<^verbatim>\<open>{type, path, data}\<close>: the data of a page is an object, a mapping from
  keys to values; the data of a meta file is whatever \<^verbatim>\<open>JSON.parse\<close> returned.
\<close>

datatype VirtualFile =
    Page string "string \<rightharpoonup> json"
  | Meta string json

text \<open>
  A \<^verbatim>\<open>Response\<close>. \<open>headers\<close> is \<^verbatim>\<open>response.headers.get\<close>; \<open>resp_json\<close> and \<open>resp_text\<close>
  are the results of \<^verbatim>\<open>response.json()\<close>, read at the type the code casts it to, and
  of \<^verbatim>\<open>response.text()\<close>, \<open>Inl\<close> when the promise rejects. \<^verbatim>\<open>response.ok\<close> is defined
  by the status.
\<close>

record Response =
  status :: nat
  statusText :: string
  headers :: "string \<rightharpoonup> string"
  resp_json :: "error + GitHubTreeResponse"
  resp_text :: "error + string"

definition ok :: "Response \<Rightarrow> bool" where
  "ok r = (200 \<le> status r \<and> status r \<le> 299)"

text \<open>
  The surroundings of the program: \<open>fetch\<close> answers a request (URL and request headers)
  or rejects; \<open>glob\<close> is the result of \<^verbatim>\<open>import.meta.glob\<close>, file names with their raw
  content; \<open>matter\<close> is gray-matter, returning the front-matter data and the body or
  throwing; the rest are \<^verbatim>\<open>JSON.parse\<close>, \<^verbatim>\<open>path.relative\<close>, \<^verbatim>\<open>path.join\<close>,
  \<^verbatim>\<open>process.cwd()\<close> and \<^verbatim>\<open>Date.prototype.toLocaleString\<close>.
\<close>

record Runtime =
  fetch :: "string \<Rightarrow> (string \<times> string) list \<Rightarrow> error + Response"
  glob :: "(string \<times> string) list"
  matter :: "string \<Rightarrow> error + (string \<rightharpoonup> json) \<times> string"
  JSON_parse :: "string \<Rightarrow> error + json"
  path_relative :: "string \<Rightarrow> string \<Rightarrow> string"
  path_join :: "string \<Rightarrow> string \<Rightarrow> string"
  cwd :: string
  toLocaleString :: "int option \<Rightarrow> string"

text \<open>
  What the program does to the outside, in program order. \<open>ConsoleLogRateLimit\<close> is the
  multi-line summary printed by \<^verbatim>\<open>logRateLimitInfo\<close>, whose text is a rendering of the
  snapshot; \<open>ConsoleErrorWith\<close> is \<^verbatim>\<open>console.error\<close> with a label and an error object.
\<close>

datatype event =
    Fetch string "(string \<times> string) list"
  | ConsoleLog string
  | ConsoleLogRateLimit GitHubRateLimitInfo
  | ConsoleInfo string
  | ConsoleWarn string
  | ConsoleError string
  | ConsoleErrorWith string error

subsection \<open>Environment validation\<close>

text \<open>
  \<^verbatim>\<open>process.env\<close> maps variable names to strings. The schema is a zod object followed by
  \<^verbatim>\<open>superRefine\<close>. zod parses every field of the object; a value of \<^verbatim>\<open>NODE_ENV\<close> outside
  the enumeration is an issue with path \<^verbatim>\<open>NODE_ENV\<close> and aborts the object, and a
  refinement does not run on an aborted value. The other fields accept every string or
  its absence. The text of the enumeration's issue is zod's, a parameter here.
\<close>

record ZodIssue =
  issue_path :: "string list"
  issue_message :: string

definition parse_NODE_ENV :: "(string option \<Rightarrow> string) \<Rightarrow> string option \<Rightarrow> ZodIssue + node_env" where
  "parse_NODE_ENV enumMessage v =
     (if v = Some ''development'' then Inr Development
      else if v = Some ''production'' then Inr Production
      else Inl \<lparr>issue_path = [''NODE_ENV''], issue_message = enumMessage v\<rparr>)"

definition parse_object :: "(string \<rightharpoonup> string) \<Rightarrow> node_env \<Rightarrow> Env" where
  "parse_object penv m =
     \<lparr>NODE_ENV = m,
      GITHUB_OWNER = penv ''GITHUB_OWNER'',
      GITHUB_REPO = penv ''GITHUB_REPO'',
      GITHUB_CONTENT_PATH =
        (case penv ''GITHUB_CONTENT_PATH'' of None \<Rightarrow> ''content/docs'' | Some s \<Rightarrow> s),
      GITHUB_CONTENT_BRANCH =
        (case penv ''GITHUB_CONTENT_BRANCH'' of None \<Rightarrow> ''main'' | Some s \<Rightarrow> s),
      GITHUB_TOKEN = penv ''GITHUB_TOKEN''\<rparr>"

text \<open>The callback of \<^verbatim>\<open>superRefine\<close>: the issues it adds, and what it prints.\<close>

definition superRefine :: "Env \<Rightarrow> event list \<times> ZodIssue list" where
  "superRefine data =
     (if NODE_ENV data = Production then
        ((if \<not> truthy (GITHUB_TOKEN data)
          then [ConsoleWarn ''GITHUB_TOKEN is not set. You may encounter rate limiting issues.'']
          else []),
         (if \<not> truthy (GITHUB_OWNER data)
          then [\<lparr>issue_path = [''GITHUB_OWNER''],
                 issue_message = ''GITHUB_OWNER is required in production mode.''\<rparr>]
          else []) @
         (if \<not> truthy (GITHUB_REPO data)
          then [\<lparr>issue_path = [''GITHUB_REPO''],
                 issue_message = ''GITHUB_REPO is required in production mode.''\<rparr>]
          else []) @
         (if GITHUB_CONTENT_PATH data = []
          then [\<lparr>issue_path = [''GITHUB_CONTENT_PATH''],
                 issue_message = ''GITHUB_CONTENT_PATH is required in production mode.''\<rparr>]
          else []))
      else ([], []))"

definition safeParse ::
  "(string option \<Rightarrow> string) \<Rightarrow> (string \<rightharpoonup> string) \<Rightarrow> event list \<times> (ZodIssue list + Env)" where
  "safeParse enumMessage penv =
     (case parse_NODE_ENV enumMessage (penv ''NODE_ENV'') of
        Inl i \<Rightarrow> ([], Inl [i])
      | Inr m \<Rightarrow>
          (let data = parse_object penv m;
               (out, issues) = superRefine data
           in (out, if issues = [] then Inr data else Inl issues)))"

definition humanReadableZodError :: "ZodIssue list \<Rightarrow> string" where
  "humanReadableZodError errors =
     join [CHR 0x0A] (map (\<lambda>e. join ''.'' (issue_path e) @ '': '' @ issue_message e) errors)"

definition validateEnv ::
  "(string option \<Rightarrow> string) \<Rightarrow> (string \<rightharpoonup> string) \<Rightarrow> event list \<times> (error + Env)" where
  "validateEnv enumMessage penv =
     (case safeParse enumMessage penv of
        (out, Inl errors) \<Rightarrow>
          (let message = humanReadableZodError errors
           in (out @ [ConsoleError message], Inl (Error message)))
      | (out, Inr data) \<Rightarrow> (out, Inr data))"

subsection \<open>Local file acquisition\<close>

text \<open>The callback of \<^verbatim>\<open>flatMap\<close>: one file gives one virtual file, none, or an exception.\<close>

definition localFile :: "Runtime \<Rightarrow> string \<times> string \<Rightarrow> error + VirtualFile list" where
  "localFile rt fc =
     (case fc of (file, content) \<Rightarrow>
        (let ext = extname file;
             virtualPath = path_relative rt ''content/docs'' (path_join rt (cwd rt) file)
         in if ext = ''.mdx'' \<or> ext = ''.md'' then
              (case matter rt content of
                 Inl e \<Rightarrow> Inl e
               | Inr (data, body) \<Rightarrow> Inr [Page virtualPath (data(''content'' \<mapsto> JStr body))])
            else if ext = ''.json'' then
              (case JSON_parse rt content of
                 Inl e \<Rightarrow> Inl e
               | Inr j \<Rightarrow> Inr [Meta virtualPath j])
            else Inr []))"

text \<open>\<^verbatim>\<open>flatMap\<close> with a callback that may throw: the first exception ends it.\<close>

fun flatMap :: "('a \<Rightarrow> error + 'b list) \<Rightarrow> 'a list \<Rightarrow> error + 'b list" where
  "flatMap f [] = Inr []"
| "flatMap f (x # xs) =
     (case f x of
        Inl e \<Rightarrow> Inl e
      | Inr ys \<Rightarrow> (case flatMap f xs of Inl e \<Rightarrow> Inl e | Inr zs \<Rightarrow> Inr (ys @ zs)))"

definition getLocalFiles :: "Runtime \<Rightarrow> error + VirtualFile list" where
  "getLocalFiles rt = flatMap (localFile rt) (glob rt)"

subsection \<open>Rate-limit headers\<close>

definition parseRateLimitHeaders :: "(string \<rightharpoonup> string) \<Rightarrow> GitHubRateLimitInfo option" where
  "parseRateLimitHeaders hs =
     (let limit = hs ''x-ratelimit-limit'';
          remaining = hs ''x-ratelimit-remaining'';
          reset = hs ''x-ratelimit-reset'';
          used = hs ''x-ratelimit-used''
      in if \<not> truthy limit \<or> \<not> truthy remaining \<or> \<not> truthy reset \<or> \<not> truthy used then None
         else Some \<lparr>limit = parseInt (template limit),
                    remaining = parseInt (template remaining),
                    reset = newDate (parseInt (template reset)),
                    used = parseInt (template used)\<rparr>)"

definition logRateLimitInfo :: "GitHubRateLimitInfo option \<Rightarrow> event list" where
  "logRateLimitInfo rateLimitInfo =
     (case rateLimitInfo of
        None \<Rightarrow> [ConsoleLog ''No rate limit information available'']
      | Some info \<Rightarrow> [ConsoleLogRateLimit info])"

subsection \<open>Remote file acquisition\<close>

definition getGitHubHeaders :: "Env \<Rightarrow> (string \<times> string) list" where
  "getGitHubHeaders env =
     (''Accept'', ''application/vnd.github.v3+json'') #
     (if truthy (GITHUB_TOKEN env)
      then [(''Authorization'', ''token '' @ template (GITHUB_TOKEN env))]
      else [])"

definition apiUrl :: "Env \<Rightarrow> string" where
  "apiUrl env =
     ''https://api.github.com/repos/'' @ template (GITHUB_OWNER env) @ ''/'' @
     template (GITHUB_REPO env) @ ''/git/trees/'' @ GITHUB_CONTENT_BRANCH env @ ''?recursive=1''"

definition fileUrl :: "Env \<Rightarrow> GitHubTreeItem \<Rightarrow> string" where
  "fileUrl env file =
     ''https://raw.githubusercontent.com/'' @ template (GITHUB_OWNER env) @ ''/'' @
     template (GITHUB_REPO env) @ ''/'' @ GITHUB_CONTENT_BRANCH env @ ''/'' @ path file"

definition contentFiles :: "Env \<Rightarrow> GitHubTreeItem list \<Rightarrow> GitHubTreeItem list" where
  "contentFiles env items =
     filter (\<lambda>item. type item = Blob \<and> prefix (GITHUB_CONTENT_PATH env) (path item)) items"

text \<open>How a promise given to \<^verbatim>\<open>Promise.allSettled\<close> ends.\<close>

datatype 'a settled = Fulfilled 'a | Rejected error

text \<open>
  The body of the asynchronous callback, from the answer to its request on: what it
  prints, and how its promise settles.
\<close>

definition fileResult ::
  "Runtime \<Rightarrow> Env \<Rightarrow> (string \<times> string) list \<Rightarrow> GitHubTreeItem \<Rightarrow> event list \<times> VirtualFile option settled" where
  "fileResult rt env reqHeaders file =
     (case fetch rt (fileUrl env file) reqHeaders of
        Inl e \<Rightarrow> ([], Rejected e)
      | Inr fileResponse \<Rightarrow>
          if \<not> ok fileResponse then
            ([ConsoleError (''Failed to fetch file: '' @ path file)], Fulfilled None)
          else
            (case resp_text fileResponse of
               Inl e \<Rightarrow> ([], Rejected e)
             | Inr content \<Rightarrow>
                 (let ext = extname (path file);
                      virtualPath = path_relative rt (GITHUB_CONTENT_PATH env) (path file)
                  in if ext = ''.mdx'' \<or> ext = ''.md'' then
                       (case matter rt content of
                          Inl e \<Rightarrow> ([], Rejected e)
                        | Inr (data, body) \<Rightarrow>
                            ([], Fulfilled (Some (Page virtualPath (data(''content'' \<mapsto> JStr body))))))
                     else if ext = ''.json'' then
                       (case JSON_parse rt content of
                          Inl e \<Rightarrow> ([], Rejected e)
                        | Inr j \<Rightarrow> ([], Fulfilled (Some (Meta virtualPath j))))
                     else ([], Fulfilled None))))"

text \<open>
  The fulfilled results, their values, and of these the ones that are not \<^verbatim>\<open>null\<close>:
  the three list operations after \<^verbatim>\<open>Promise.allSettled\<close>.
\<close>

fun fulfilledValues :: "'a option settled list \<Rightarrow> 'a list" where
  "fulfilledValues [] = []"
| "fulfilledValues (Fulfilled (Some v) # rs) = v # fulfilledValues rs"
| "fulfilledValues (Fulfilled None # rs) = fulfilledValues rs"
| "fulfilledValues (Rejected e # rs) = fulfilledValues rs"

text \<open>
  The \<^verbatim>\<open>try\<close> block. \<^verbatim>\<open>map\<close> calls the asynchronous callback on every content file in
  turn, and each call issues its request before it first suspends: the requests are
  events in the order of the listing. The answers arrive in an order the program does not
  control; the trace has the callbacks' output in the order of the listing, and
  \<^verbatim>\<open>Promise.allSettled\<close> returns the results in that order whatever the arrival.
\<close>

definition tryBlock :: "Runtime \<Rightarrow> Env \<Rightarrow> event list \<times> (error + VirtualFile list)" where
  "tryBlock rt env =
     (let reqHeaders = getGitHubHeaders env in
      case fetch rt (apiUrl env) reqHeaders of
        Inl e \<Rightarrow> ([Fetch (apiUrl env) reqHeaders], Inl e)
      | Inr response \<Rightarrow>
          (let rateLimitInfo = parseRateLimitHeaders (headers response);
               out = Fetch (apiUrl env) reqHeaders # logRateLimitInfo rateLimitInfo
           in if \<not> ok response then
                (case rateLimitInfo of
                   None \<Rightarrow>
                     (out, Inl (GitHubApiError (''GitHub API error: '' @ statusText response)
                                  (status response)))
                 | Some info \<Rightarrow>
                     if remaining info = Some 0 then
                       (out, Inl (GitHubRateLimitError
                                    (''GitHub API rate limit exceeded. Rate limit will reset at '' @
                                     toLocaleString rt (reset info)) info))
                     else
                       (out, Inl (GitHubApiError (''GitHub API error: '' @ statusText response)
                                    (status response))))
              else
                (case resp_json response of
                   Inl e \<Rightarrow> (out, Inl e)
                 | Inr data \<Rightarrow>
                     (let files = contentFiles env (tree data);
                          virtualFilesResults = map (fileResult rt env reqHeaders) files
                      in (out @ map (\<lambda>file. Fetch (fileUrl env file) reqHeaders) files @
                          concat (map fst virtualFilesResults),
                          Inr (fulfilledValues (map snd virtualFilesResults)))))))"

text \<open>The \<^verbatim>\<open>catch\<close> clause: print according to the class of the error, throw it again.\<close>

definition catchBlock :: "Runtime \<Rightarrow> error \<Rightarrow> event list" where
  "catchBlock rt err =
     (case err of
        GitHubRateLimitError m info \<Rightarrow>
          [ConsoleError (''Rate limit exceeded. Reset at '' @ toLocaleString rt (reset info))]
      | GitHubApiError m s \<Rightarrow>
          [ConsoleError (''GitHub API error ('' @ show_nat s @ ''): '' @ m)]
      | Error m \<Rightarrow> [ConsoleErrorWith ''Error fetching files from GitHub:'' (Error m)])"

definition getGitHubFiles :: "Runtime \<Rightarrow> Env \<Rightarrow> event list \<times> (error + VirtualFile list)" where
  "getGitHubFiles rt env =
     (if \<not> truthy (GITHUB_OWNER env) \<or> \<not> truthy (GITHUB_REPO env) then
        ([], Inl (Error ''GitHub configuration is missing''))
      else
        (case tryBlock rt env of
           (out, Inl err) \<Rightarrow> (out @ catchBlock rt err, Inl err)
         | (out, Inr virtualFiles) \<Rightarrow> (out, Inr virtualFiles)))"

subsection \<open>Mode dispatcher\<close>

definition getFiles :: "Runtime \<Rightarrow> Env \<Rightarrow> event list \<times> (error + VirtualFile list)" where
  "getFiles rt env =
     (case (if NODE_ENV env = Development then ([], getLocalFiles rt) else getGitHubFiles rt env) of
        (out, Inl err) \<Rightarrow> (out, Inl err)
      | (out, Inr files) \<Rightarrow>
          (out @ [ConsoleInfo (node_env_string (NODE_ENV env) @ '' Loaded '' @
                               show_nat (length files) @ '' files'')],
           Inr files))"

subsection \<open>Reading a trace\<close>

fun isFetch :: "event \<Rightarrow> bool" where
  "isFetch (Fetch u hs) = True"
| "isFetch e = False"

fun isConsoleError :: "event \<Rightarrow> bool" where
  "isConsoleError (ConsoleError m) = True"
| "isConsoleError e = False"

text \<open>The content files of a listing whose request is answered with a non-success status.\<close>

definition fetchFailed :: "Runtime \<Rightarrow> Env \<Rightarrow> GitHubTreeItem \<Rightarrow> bool" where
  "fetchFailed rt env file =
     (case fetch rt (fileUrl env file) (getGitHubHeaders env) of
        Inl e \<Rightarrow> False
      | Inr fileResponse \<Rightarrow> \<not> ok fileResponse)"

text \<open>
  The content files that become a virtual file: the request is answered with a success
  status, the body can be read, the extension is one of the three known ones and the
  parser for it does not throw.
\<close>

definition isRight :: "'a + 'b \<Rightarrow> bool" where
  "isRight x = (case x of Inl a \<Rightarrow> False | Inr b \<Rightarrow> True)"

definition becomesVirtualFile :: "Runtime \<Rightarrow> Env \<Rightarrow> GitHubTreeItem \<Rightarrow> bool" where
  "becomesVirtualFile rt env file =
     (case fetch rt (fileUrl env file) (getGitHubHeaders env) of
        Inl e \<Rightarrow> False
      | Inr fileResponse \<Rightarrow>
          ok fileResponse \<and>
          (case resp_text fileResponse of
             Inl e \<Rightarrow> False
           | Inr content \<Rightarrow>
               (extname (path file) \<in> {''.mdx'', ''.md''} \<and> isRight (matter rt content)) \<or>
               (extname (path file) = ''.json'' \<and> isRight (JSON_parse rt content))))"

subsection \<open>The constraints on the environment, as the specification words them\<close>

text \<open>
  The mode is one of the two literals; in production mode the owner, the repository name
  and the content path are not missing, where the content path is the one of the
  configuration, the default when the variable is unset.
\<close>

datatype constraint = ModeValid | OwnerGiven | RepoGiven | ContentPathGiven

definition violated :: "(string \<rightharpoonup> string) \<Rightarrow> constraint \<Rightarrow> bool" where
  "violated penv c =
     (case c of
        ModeValid \<Rightarrow>
          penv ''NODE_ENV'' \<noteq> Some ''development'' \<and> penv ''NODE_ENV'' \<noteq> Some ''production''
      | OwnerGiven \<Rightarrow>
          penv ''NODE_ENV'' = Some ''production'' \<and> \<not> truthy (penv ''GITHUB_OWNER'')
      | RepoGiven \<Rightarrow>
          penv ''NODE_ENV'' = Some ''production'' \<and> \<not> truthy (penv ''GITHUB_REPO'')
      | ContentPathGiven \<Rightarrow>
          penv ''NODE_ENV'' = Some ''production'' \<and> penv ''GITHUB_CONTENT_PATH'' = Some [])"

definition constraintLine :: "(string option \<Rightarrow> string) \<Rightarrow> (string \<rightharpoonup> string) \<Rightarrow> constraint \<Rightarrow> string" where
  "constraintLine enumMessage penv c =
     (case c of
        ModeValid \<Rightarrow> ''NODE_ENV: '' @ enumMessage (penv ''NODE_ENV'')
      | OwnerGiven \<Rightarrow> ''GITHUB_OWNER: GITHUB_OWNER is required in production mode.''
      | RepoGiven \<Rightarrow> ''GITHUB_REPO: GITHUB_REPO is required in production mode.''
      | ContentPathGiven \<Rightarrow>
          ''GITHUB_CONTENT_PATH: GITHUB_CONTENT_PATH is required in production mode.'')"

definition violations :: "(string \<rightharpoonup> string) \<Rightarrow> constraint list" where
  "violations penv = filter (violated penv) [ModeValid, OwnerGiven, RepoGiven, ContentPathGiven]"

subsection \<open>Example inputs\<close>

definition exEnv :: Env where
  "exEnv =
     \<lparr>NODE_ENV = Production, GITHUB_OWNER = Some ''acme'', GITHUB_REPO = Some ''site'',
      GITHUB_CONTENT_PATH = ''content/docs'', GITHUB_CONTENT_BRANCH = ''main'',
      GITHUB_TOKEN = None\<rparr>"

definition exItem :: "string \<Rightarrow> item_type \<Rightarrow> GitHubTreeItem" where
  "exItem p t = \<lparr>path = p, mode = ''100644'', type = t, sha = ''0'', size_opt = None, url = []\<rparr>"

definition exResponse ::
  "nat \<Rightarrow> string \<Rightarrow> (string \<times> string) list \<Rightarrow> GitHubTreeItem list \<Rightarrow> string \<Rightarrow> Response" where
  "exResponse st stText hs items body =
     \<lparr>status = st, statusText = stText, headers = map_of hs,
      resp_json = Inr \<lparr>sha = ''0'', url = [], truncated = False, tree = items\<rparr>,
      resp_text = Inr body\<rparr>"

text \<open>
  A front-matter parser for the examples: it knows two documents and treats every other
  text as a body with no front-matter.
\<close>

definition exDoc :: string where
  "exDoc = ''---'' @ [CHR 0x0A] @ ''title: A'' @ [CHR 0x0A] @ ''---'' @ [CHR 0x0A] @ ''hello''"

definition exDocContentKey :: string where
  "exDocContentKey = ''---'' @ [CHR 0x0A] @ ''content: x'' @ [CHR 0x0A] @ ''---'' @ [CHR 0x0A] @ ''hello''"

definition exMatter :: "string \<Rightarrow> error + (string \<rightharpoonup> json) \<times> string" where
  "exMatter content =
     (if content = exDoc then Inr ([''title'' \<mapsto> JStr ''A''], ''hello'')
      else if content = exDocContentKey then Inr ([''content'' \<mapsto> JStr ''x''], ''hello'')
      else Inr (Map.empty, content))"

definition exRuntime :: "(string \<Rightarrow> error + Response) \<Rightarrow> Runtime" where
  "exRuntime net =
     \<lparr>fetch = (\<lambda>u hs. net u),
      glob = [(''/content/docs/index.md'', exDoc)],
      matter = exMatter,
      JSON_parse = (\<lambda>s. if s = ''null'' then Inr JNull else Inl (Error ''SyntaxError'')),
      path_relative =
        (\<lambda>from to. if prefix ''/srv/'' to then drop (Suc (length (''/srv/'' @ from))) to
                    else drop (Suc (length from)) to),
      path_join = (\<lambda>a b. a @ b),
      cwd = ''/srv'',
      toLocaleString =
        (\<lambda>t. if t = Some 1700000000000 then ''11/14/2023, 10:13:20 PM'' else ''Invalid Date'')\<rparr>"

definition exRateHeaders :: "string \<Rightarrow> (string \<times> string) list" where
  "exRateHeaders rem =
     [(''x-ratelimit-limit'', ''60''), (''x-ratelimit-remaining'', rem),
      (''x-ratelimit-reset'', ''1700000000''), (''x-ratelimit-used'', ''60'')]"

definition exTree :: "GitHubTreeItem list" where
  "exTree =
     [exItem ''README.md'' Blob,
      exItem ''content/docs'' Tree,
      exItem ''content/docs/index.md'' Blob,
      exItem ''content/docs/logo.png'' Blob]"

text \<open>
  Networks for the examples: the listing is refused with 403 or with 500; the listing is
  answered and \<^verbatim>\<open>index.md\<close> is served while every other file is not found; the listing
  is answered and every file is served except \<^verbatim>\<open>index.md\<close>.
\<close>

definition exNetRefused :: "nat \<Rightarrow> (string \<times> string) list \<Rightarrow> string \<Rightarrow> error + Response" where
  "exNetRefused st hs u = Inr (exResponse st ''Forbidden'' hs [] [])"

definition exNetServed :: "GitHubTreeItem list \<Rightarrow> (string \<times> string) list \<Rightarrow> string \<Rightarrow> error + Response" where
  "exNetServed items hs u =
     (if u = apiUrl exEnv then Inr (exResponse 200 ''OK'' hs items [])
      else if u = fileUrl exEnv (exItem ''content/docs/index.md'' Blob)
      then Inr (exResponse 200 ''OK'' [] [] exDoc)
      else Inr (exResponse 404 ''Not Found'' [] [] []))"

definition exNetIndexMissing :: "GitHubTreeItem list \<Rightarrow> string \<Rightarrow> error + Response" where
  "exNetIndexMissing items u =
     (if u = apiUrl exEnv then Inr (exResponse 200 ''OK'' [] items [])
      else if u = fileUrl exEnv (exItem ''content/docs/index.md'' Blob)
      then Inr (exResponse 404 ''Not Found'' [] [] [])
      else Inr (exResponse 200 ''OK'' [] [] ''binary''))"

text \<open>
  A network that answers every request with the example listing as JSON and, as text, the
  document whose front-matter has a key \<^verbatim>\<open>content\<close>; and a runtime on that network
  whose bundled local file is that document.
\<close>

definition exNetContentKey :: "string \<Rightarrow> error + Response" where
  "exNetContentKey u = Inr (exResponse 200 ''OK'' [] exTree exDocContentKey)"

definition exRuntimeContentKey :: Runtime where
  "exRuntimeContentKey =
     (exRuntime exNetContentKey)\<lparr>glob := [(''/content/docs/index.md'', exDocContentKey)]\<rparr>"

definition exProcessEnv :: "(string \<times> string) list \<Rightarrow> string \<rightharpoonup> string" where
  "exProcessEnv kvs = map_of kvs"

definition exEnumMessage :: "string option \<Rightarrow> string" where
  "exEnumMessage v = (case v of None \<Rightarrow> ''Required'' | Some s \<Rightarrow> ''Invalid enum value'')"

section \<open>Properties\<close>

lemma show_nat_digit: "n < 10 \<Longrightarrow> show_nat n = [digit_char n]"
  by (simp add: show_nat.simps)

subsection \<open>The listing request\<close>

lemma tryBlock_refused:
  assumes "fetch rt (apiUrl env) (getGitHubHeaders env) = Inr response" and "\<not> ok response"
  shows "tryBlock rt env =
     (Fetch (apiUrl env) (getGitHubHeaders env) # logRateLimitInfo (parseRateLimitHeaders (headers response)),
      Inl (case parseRateLimitHeaders (headers response) of
             None \<Rightarrow> GitHubApiError (''GitHub API error: '' @ statusText response) (status response)
           | Some info \<Rightarrow>
               if remaining info = Some 0
               then GitHubRateLimitError
                      (''GitHub API rate limit exceeded. Rate limit will reset at '' @
                       toLocaleString rt (reset info)) info
               else GitHubApiError (''GitHub API error: '' @ statusText response) (status response)))"
  using assms by (simp add: tryBlock_def Let_def split: option.splits)

lemma tryBlock_listed:
  assumes "fetch rt (apiUrl env) (getGitHubHeaders env) = Inr response" and "ok response"
    and "resp_json response = Inr data"
  shows "tryBlock rt env =
     (Fetch (apiUrl env) (getGitHubHeaders env) #
      logRateLimitInfo (parseRateLimitHeaders (headers response)) @
      map (\<lambda>file. Fetch (fileUrl env file) (getGitHubHeaders env)) (contentFiles env (tree data)) @
      concat (map (\<lambda>file. fst (fileResult rt env (getGitHubHeaders env) file)) (contentFiles env (tree data))),
      Inr (fulfilledValues (map (\<lambda>file. snd (fileResult rt env (getGitHubHeaders env) file))
             (contentFiles env (tree data)))))"
  using assms by (simp add: tryBlock_def Let_def comp_def)

lemma getGitHubFiles_refused:
  assumes "truthy (GITHUB_OWNER env)" and "truthy (GITHUB_REPO env)"
    and "fetch rt (apiUrl env) (getGitHubHeaders env) = Inr response" and "\<not> ok response"
  shows "snd (getGitHubFiles rt env) =
      Inl (case parseRateLimitHeaders (headers response) of
             None \<Rightarrow> GitHubApiError (''GitHub API error: '' @ statusText response) (status response)
           | Some info \<Rightarrow>
               if remaining info = Some 0
               then GitHubRateLimitError
                      (''GitHub API rate limit exceeded. Rate limit will reset at '' @
                       toLocaleString rt (reset info)) info
               else GitHubApiError (''GitHub API error: '' @ statusText response) (status response))"
  using assms(1,2) by (simp add: getGitHubFiles_def tryBlock_refused[OF assms(3,4)])

lemma getGitHubFiles_listed:
  assumes "truthy (GITHUB_OWNER env)" and "truthy (GITHUB_REPO env)"
    and "fetch rt (apiUrl env) (getGitHubHeaders env) = Inr response" and "ok response"
    and "resp_json response = Inr data"
  shows "getGitHubFiles rt env =
     (Fetch (apiUrl env) (getGitHubHeaders env) #
      logRateLimitInfo (parseRateLimitHeaders (headers response)) @
      map (\<lambda>file. Fetch (fileUrl env file) (getGitHubHeaders env)) (contentFiles env (tree data)) @
      concat (map (\<lambda>file. fst (fileResult rt env (getGitHubHeaders env) file)) (contentFiles env (tree data))),
      Inr (fulfilledValues (map (\<lambda>file. snd (fileResult rt env (getGitHubHeaders env) file))
             (contentFiles env (tree data)))))"
  using assms(1,2) by (simp add: getGitHubFiles_def tryBlock_listed[OF assms(3,4,5)])

lemma status_403_not_ok: "status r = 403 \<Longrightarrow> \<not> ok r"
  by (simp add: ok_def)

lemmas parse_defs = parseRateLimitHeaders_def parseInt_def isStrWhiteSpace_def isDigitIn_def
  digitValue_def digitsValue_def newDate_def

lemma ex_parse0: "parseRateLimitHeaders (map_of (exRateHeaders ''0'')) =
   Some \<lparr>limit = Some 60, remaining = Some 0, reset = Some 1700000000000, used = Some 60\<rparr>"
  by (simp add: parse_defs exRateHeaders_def truthy_def template_def)

lemma ex_parse7: "parseRateLimitHeaders (map_of (exRateHeaders ''7'')) =
   Some \<lparr>limit = Some 60, remaining = Some 7, reset = Some 1700000000000, used = Some 60\<rparr>"
  by (simp add: parse_defs exRateHeaders_def truthy_def template_def)

lemma ex_owner_repo: "truthy (GITHUB_OWNER exEnv)" "truthy (GITHUB_REPO exEnv)"
  by (simp_all add: exEnv_def truthy_def)

subsection \<open>A refused listing with status 403\<close>

text \<open>
  C1. When the listing request is answered with status 403 and the four rate-limit headers
  parse to a snapshot: if the snapshot's remaining count is 0, \<open>getGitHubFiles\<close> throws
  \<open>GitHubRateLimitError\<close> carrying that snapshot, reset time included; if the remaining
  count is anything else, it throws \<open>GitHubApiError\<close> carrying the status 403.
\<close>

theorem rate_limit_403:
  assumes "truthy (GITHUB_OWNER env)" and "truthy (GITHUB_REPO env)"
    and "fetch rt (apiUrl env) (getGitHubHeaders env) = Inr response"
    and "status response = 403"
    and "parseRateLimitHeaders (headers response) = Some info"
  shows "(remaining info = Some 0 \<longrightarrow>
            snd (getGitHubFiles rt env) =
              Inl (GitHubRateLimitError
                     (''GitHub API rate limit exceeded. Rate limit will reset at '' @
                      toLocaleString rt (reset info)) info)) \<and>
         (remaining info \<noteq> Some 0 \<longrightarrow>
            snd (getGitHubFiles rt env) =
              Inl (GitHubApiError (''GitHub API error: '' @ statusText response) 403))"
  using getGitHubFiles_refused[OF assms(1,2,3) status_403_not_ok[OF assms(4)]] assms(4,5)
  by simp

theorem rate_limit_403_witness:
  "snd (getGitHubFiles (exRuntime (exNetRefused 403 (exRateHeaders ''0''))) exEnv) =
     Inl (GitHubRateLimitError
            ''GitHub API rate limit exceeded. Rate limit will reset at 11/14/2023, 10:13:20 PM''
            \<lparr>limit = Some 60, remaining = Some 0, reset = Some 1700000000000, used = Some 60\<rparr>) \<and>
   snd (getGitHubFiles (exRuntime (exNetRefused 403 (exRateHeaders ''7''))) exEnv) =
     Inl (GitHubApiError ''GitHub API error: Forbidden'' 403)"
proof -
  let ?r0 = "exResponse 403 ''Forbidden'' (exRateHeaders ''0'') [] []"
  let ?r7 = "exResponse 403 ''Forbidden'' (exRateHeaders ''7'') [] []"
  note o = ex_owner_repo
  have f0: "fetch (exRuntime (exNetRefused 403 (exRateHeaders ''0''))) (apiUrl exEnv) (getGitHubHeaders exEnv) = Inr ?r0"
    by (simp add: exRuntime_def exNetRefused_def)
  have f7: "fetch (exRuntime (exNetRefused 403 (exRateHeaders ''7''))) (apiUrl exEnv) (getGitHubHeaders exEnv) = Inr ?r7"
    by (simp add: exRuntime_def exNetRefused_def)
  have s: "status ?r0 = 403" "status ?r7 = 403" by (simp_all add: exResponse_def)
  have p0: "parseRateLimitHeaders (headers ?r0) = Some \<lparr>limit = Some 60, remaining = Some 0, reset = Some 1700000000000, used = Some 60\<rparr>"
    using ex_parse0 by (simp add: exResponse_def)
  have p7: "parseRateLimitHeaders (headers ?r7) = Some \<lparr>limit = Some 60, remaining = Some 7, reset = Some 1700000000000, used = Some 60\<rparr>"
    using ex_parse7 by (simp add: exResponse_def)
  have t: "toLocaleString (exRuntime (exNetRefused 403 (exRateHeaders ''0''))) (Some 1700000000000) = ''11/14/2023, 10:13:20 PM''"
    by (simp add: exRuntime_def)
  show ?thesis
    using rate_limit_403[OF o f0 s(1) p0] rate_limit_403[OF o f7 s(2) p7] t
    by (simp add: exResponse_def)
qed

subsection \<open>A refused listing with any status\<close>

text \<open>
  C10. When the listing request is answered with any non-success status,
  \<open>getGitHubFiles\<close> throws \<open>GitHubRateLimitError\<close> exactly when the rate-limit headers
  parse to a snapshot whose remaining count is 0; in every other case it throws
  \<open>GitHubApiError\<close> carrying the status of the response, in particular when one of the
  four headers is absent.
\<close>

theorem refused_listing_error:
  assumes "truthy (GITHUB_OWNER env)" and "truthy (GITHUB_REPO env)"
    and "fetch rt (apiUrl env) (getGitHubHeaders env) = Inr response"
    and "\<not> ok response"
  shows "((\<exists>m info. snd (getGitHubFiles rt env) = Inl (GitHubRateLimitError m info)) \<longleftrightarrow>
          (\<exists>info. parseRateLimitHeaders (headers response) = Some info \<and> remaining info = Some 0)) \<and>
         (\<not> (\<exists>info. parseRateLimitHeaders (headers response) = Some info \<and> remaining info = Some 0) \<longrightarrow>
          snd (getGitHubFiles rt env) =
            Inl (GitHubApiError (''GitHub API error: '' @ statusText response) (status response))) \<and>
         (headers response ''x-ratelimit-limit'' = None \<or>
          headers response ''x-ratelimit-remaining'' = None \<or>
          headers response ''x-ratelimit-reset'' = None \<or>
          headers response ''x-ratelimit-used'' = None \<longrightarrow>
          snd (getGitHubFiles rt env) =
            Inl (GitHubApiError (''GitHub API error: '' @ statusText response) (status response)))"
proof -
  note r = getGitHubFiles_refused[OF assms]
  have absent: "parseRateLimitHeaders (headers response) = None"
    if "headers response ''x-ratelimit-limit'' = None \<or>
        headers response ''x-ratelimit-remaining'' = None \<or>
        headers response ''x-ratelimit-reset'' = None \<or>
        headers response ''x-ratelimit-used'' = None"
    using that by (auto simp add: parseRateLimitHeaders_def truthy_def)
  show ?thesis
  proof (cases "parseRateLimitHeaders (headers response)")
    case None
    then show ?thesis using r by simp
  next
    case (Some info)
    have present: "\<not> (headers response ''x-ratelimit-limit'' = None \<or>
        headers response ''x-ratelimit-remaining'' = None \<or>
        headers response ''x-ratelimit-reset'' = None \<or>
        headers response ''x-ratelimit-used'' = None)"
    proof
      assume "headers response ''x-ratelimit-limit'' = None \<or>
        headers response ''x-ratelimit-remaining'' = None \<or>
        headers response ''x-ratelimit-reset'' = None \<or>
        headers response ''x-ratelimit-used'' = None"
      then have "parseRateLimitHeaders (headers response) = None" by (rule absent)
      with Some show False by simp
    qed
    show ?thesis
    proof (cases "remaining info = Some 0")
      case True
      then show ?thesis using r Some present by simp
    next
      case False
      then show ?thesis using r Some present by simp
    qed
  qed
qed

theorem refused_listing_error_witness:
  "\<not> ok (exResponse 500 ''Forbidden'' (exRateHeaders ''0'') [] []) \<and>
   snd (getGitHubFiles (exRuntime (exNetRefused 500 (exRateHeaders ''0''))) exEnv) =
     Inl (GitHubRateLimitError
            ''GitHub API rate limit exceeded. Rate limit will reset at 11/14/2023, 10:13:20 PM''
            \<lparr>limit = Some 60, remaining = Some 0, reset = Some 1700000000000, used = Some 60\<rparr>) \<and>
   snd (getGitHubFiles (exRuntime (exNetRefused 500 (tl (exRateHeaders ''0'')))) exEnv) =
     Inl (GitHubApiError ''GitHub API error: Forbidden'' 500)"
proof -
  let ?r0 = "exResponse 500 ''Forbidden'' (exRateHeaders ''0'') [] []"
  let ?r1 = "exResponse 500 ''Forbidden'' (tl (exRateHeaders ''0'')) [] []"
  have f0: "fetch (exRuntime (exNetRefused 500 (exRateHeaders ''0''))) (apiUrl exEnv) (getGitHubHeaders exEnv) = Inr ?r0"
    by (simp add: exRuntime_def exNetRefused_def)
  have f1: "fetch (exRuntime (exNetRefused 500 (tl (exRateHeaders ''0'')))) (apiUrl exEnv) (getGitHubHeaders exEnv) = Inr ?r1"
    by (simp add: exRuntime_def exNetRefused_def)
  have n: "\<not> ok ?r0" "\<not> ok ?r1" by (simp_all add: exResponse_def ok_def)
  have p0: "parseRateLimitHeaders (headers ?r0) = Some \<lparr>limit = Some 60, remaining = Some 0, reset = Some 1700000000000, used = Some 60\<rparr>"
    using ex_parse0 by (simp add: exResponse_def)
  have a1: "headers ?r1 ''x-ratelimit-limit'' = None"
    by (simp add: exResponse_def exRateHeaders_def)
  have t: "toLocaleString (exRuntime (exNetRefused 500 (exRateHeaders ''0''))) (Some 1700000000000) = ''11/14/2023, 10:13:20 PM''"
    by (simp add: exRuntime_def)
  have e0: "\<exists>m info. snd (getGitHubFiles (exRuntime (exNetRefused 500 (exRateHeaders ''0''))) exEnv) = Inl (GitHubRateLimitError m info)"
    using refused_listing_error[OF ex_owner_repo f0 n(1)] p0 by simp
  have "snd (getGitHubFiles (exRuntime (exNetRefused 500 (exRateHeaders ''0''))) exEnv) =
     Inl (GitHubRateLimitError
            ''GitHub API rate limit exceeded. Rate limit will reset at 11/14/2023, 10:13:20 PM''
            \<lparr>limit = Some 60, remaining = Some 0, reset = Some 1700000000000, used = Some 60\<rparr>)"
    using e0 getGitHubFiles_refused[OF ex_owner_repo f0 n(1)] p0 t by simp
  moreover have "snd (getGitHubFiles (exRuntime (exNetRefused 500 (tl (exRateHeaders ''0'')))) exEnv) =
     Inl (GitHubApiError ''GitHub API error: Forbidden'' 500)"
    using refused_listing_error[OF ex_owner_repo f1 n(2)] a1 by (simp add: exResponse_def)
  ultimately show ?thesis using n(1) by simp
qed

subsection \<open>Missing owner or repository\<close>

text \<open>
  C3. In production mode with the owner or the repository name absent (or empty),
  \<open>getGitHubFiles\<close> throws the plain error "GitHub configuration is missing" and its
  trace is empty: no request has been issued, neither for the listing nor for a file.
  The dispatcher passes this outcome on unchanged.
\<close>

theorem missing_configuration:
  assumes "NODE_ENV env = Production"
    and "\<not> truthy (GITHUB_OWNER env) \<or> \<not> truthy (GITHUB_REPO env)"
  shows "getGitHubFiles rt env = ([], Inl (Error ''GitHub configuration is missing'')) \<and>
         filter isFetch (fst (getGitHubFiles rt env)) = [] \<and>
         getFiles rt env = ([], Inl (Error ''GitHub configuration is missing''))"
  using assms by (auto simp add: getGitHubFiles_def getFiles_def)

theorem missing_configuration_witness:
  "NODE_ENV (exEnv\<lparr>GITHUB_REPO := None\<rparr>) = Production \<and>
   \<not> truthy (GITHUB_REPO (exEnv\<lparr>GITHUB_REPO := None\<rparr>)) \<and>
   getGitHubFiles (exRuntime (exNetServed exTree [])) (exEnv\<lparr>GITHUB_REPO := None\<rparr>) =
     ([], Inl (Error ''GitHub configuration is missing''))"
proof -
  have m: "NODE_ENV (exEnv\<lparr>GITHUB_REPO := None\<rparr>) = Production" by (simp add: exEnv_def)
  have a: "\<not> truthy (GITHUB_OWNER (exEnv\<lparr>GITHUB_REPO := None\<rparr>)) \<or> \<not> truthy (GITHUB_REPO (exEnv\<lparr>GITHUB_REPO := None\<rparr>))"
    by (simp add: truthy_def)
  show ?thesis using missing_configuration[OF m a] m by (simp add: truthy_def)
qed

subsection \<open>Absent rate-limit headers\<close>

lemma getGitHubFiles_refused_no_snapshot:
  assumes "truthy (GITHUB_OWNER env)" and "truthy (GITHUB_REPO env)"
    and "fetch rt (apiUrl env) (getGitHubHeaders env) = Inr response" and "\<not> ok response"
    and "parseRateLimitHeaders (headers response) = None"
  shows "getGitHubFiles rt env =
     ([Fetch (apiUrl env) (getGitHubHeaders env),
       ConsoleLog ''No rate limit information available'',
       ConsoleError (''GitHub API error ('' @ show_nat (status response) @ ''): '' @
                     ''GitHub API error: '' @ statusText response)],
      Inl (GitHubApiError (''GitHub API error: '' @ statusText response) (status response)))"
  using assms(1,2,5)
  by (simp add: getGitHubFiles_def tryBlock_refused[OF assms(3,4)] logRateLimitInfo_def
      catchBlock_def)

lemma getGitHubFiles_unreadable_listing:
  assumes "truthy (GITHUB_OWNER env)" and "truthy (GITHUB_REPO env)"
    and "fetch rt (apiUrl env) (getGitHubHeaders env) = Inr response" and "ok response"
    and "resp_json response = Inl e"
  shows "getGitHubFiles rt env =
     (Fetch (apiUrl env) (getGitHubHeaders env) #
      logRateLimitInfo (parseRateLimitHeaders (headers response)) @ catchBlock rt e,
      Inl e)"
  using assms by (simp add: getGitHubFiles_def tryBlock_def Let_def)

text \<open>
  C6. When the response lacks one of the four rate-limit headers,
  \<open>parseRateLimitHeaders\<close> returns no snapshot and \<open>logRateLimitInfo\<close> prints
  "No rate limit information available"; both are total and have no failing outcome.
  Acquisition goes on past them, for every response to the listing request: the trace
  begins with the request and that line, and what follows is decided by the response
  alone. A non-success status is thrown as \<open>GitHubApiError\<close> with that status; a
  successful response whose body cannot be read throws the reader's error; a successful
  response with a listing has its content files requested, in the order of the listing,
  and a file list is returned.
\<close>

theorem absent_rate_limit_headers:
  assumes "hs ''x-ratelimit-limit'' = None \<or> hs ''x-ratelimit-remaining'' = None \<or>
           hs ''x-ratelimit-reset'' = None \<or> hs ''x-ratelimit-used'' = None"
  shows "parseRateLimitHeaders hs = None \<and>
         logRateLimitInfo (parseRateLimitHeaders hs) =
           [ConsoleLog ''No rate limit information available''] \<and>
         (truthy (GITHUB_OWNER env) \<and> truthy (GITHUB_REPO env) \<and>
          fetch rt (apiUrl env) (getGitHubHeaders env) = Inr response \<and>
          headers response = hs \<longrightarrow>
          (\<exists>rest. fst (getGitHubFiles rt env) =
                    Fetch (apiUrl env) (getGitHubHeaders env) #
                    ConsoleLog ''No rate limit information available'' # rest) \<and>
          (\<not> ok response \<longrightarrow>
             getGitHubFiles rt env =
               ([Fetch (apiUrl env) (getGitHubHeaders env),
                 ConsoleLog ''No rate limit information available'',
                 ConsoleError (''GitHub API error ('' @ show_nat (status response) @ ''): '' @
                               ''GitHub API error: '' @ statusText response)],
                Inl (GitHubApiError (''GitHub API error: '' @ statusText response)
                       (status response)))) \<and>
          (ok response \<and> resp_json response = Inl e \<longrightarrow>
             snd (getGitHubFiles rt env) = Inl e) \<and>
          (ok response \<and> resp_json response = Inr data \<longrightarrow>
             (\<exists>rest. fst (getGitHubFiles rt env) =
                       Fetch (apiUrl env) (getGitHubHeaders env) #
                       ConsoleLog ''No rate limit information available'' #
                       map (\<lambda>file. Fetch (fileUrl env file) (getGitHubHeaders env))
                         (contentFiles env (tree data)) @ rest) \<and>
             snd (getGitHubFiles rt env) =
               Inr (fulfilledValues
                      (map (\<lambda>file. snd (fileResult rt env (getGitHubHeaders env) file))
                         (contentFiles env (tree data))))))"
proof -
  have p: "parseRateLimitHeaders hs = None"
    using assms by (auto simp add: parseRateLimitHeaders_def truthy_def)
  then have l: "logRateLimitInfo (parseRateLimitHeaders hs) =
      [ConsoleLog ''No rate limit information available'']"
    by (simp add: logRateLimitInfo_def)
  have go: "(\<exists>rest. fst (getGitHubFiles rt env) =
                    Fetch (apiUrl env) (getGitHubHeaders env) #
                    ConsoleLog ''No rate limit information available'' # rest) \<and>
          (\<not> ok response \<longrightarrow>
             getGitHubFiles rt env =
               ([Fetch (apiUrl env) (getGitHubHeaders env),
                 ConsoleLog ''No rate limit information available'',
                 ConsoleError (''GitHub API error ('' @ show_nat (status response) @ ''): '' @
                               ''GitHub API error: '' @ statusText response)],
                Inl (GitHubApiError (''GitHub API error: '' @ statusText response)
                       (status response)))) \<and>
          (ok response \<and> resp_json response = Inl e \<longrightarrow>
             snd (getGitHubFiles rt env) = Inl e) \<and>
          (ok response \<and> resp_json response = Inr data \<longrightarrow>
             (\<exists>rest. fst (getGitHubFiles rt env) =
                       Fetch (apiUrl env) (getGitHubHeaders env) #
                       ConsoleLog ''No rate limit information available'' #
                       map (\<lambda>file. Fetch (fileUrl env file) (getGitHubHeaders env))
                         (contentFiles env (tree data)) @ rest) \<and>
             snd (getGitHubFiles rt env) =
               Inr (fulfilledValues
                      (map (\<lambda>file. snd (fileResult rt env (getGitHubHeaders env) file))
                         (contentFiles env (tree data)))))"
    if c: "truthy (GITHUB_OWNER env)" "truthy (GITHUB_REPO env)"
      and f: "fetch rt (apiUrl env) (getGitHubHeaders env) = Inr response"
      and h: "headers response = hs"
  proof -
    have p': "parseRateLimitHeaders (headers response) = None" using p h by simp
    have l': "logRateLimitInfo (parseRateLimitHeaders (headers response)) =
        [ConsoleLog ''No rate limit information available'']" using l h by simp
    show ?thesis
    proof (cases "ok response")
      case False
      then show ?thesis
        by (simp add: getGitHubFiles_refused_no_snapshot[OF c f False p'])
    next
      case True
      show ?thesis
      proof (cases "resp_json response")
        case (Inl e')
        then show ?thesis
          using True by (simp add: getGitHubFiles_unreadable_listing[OF c f True Inl] l')
      next
        case (Inr data')
        then show ?thesis
          using True by (simp add: getGitHubFiles_listed[OF c f True Inr] l')
      qed
    qed
  qed
  show ?thesis using p l go by blast
qed

subsection \<open>The content files of a listing\<close>

lemma fileResult_fst:
  "fst (fileResult rt env (getGitHubHeaders env) file) =
     (if fetchFailed rt env file then [ConsoleError (''Failed to fetch file: '' @ path file)] else [])"
  by (simp add: fileResult_def fetchFailed_def Let_def split: sum.splits prod.splits)

lemma fileResult_output:
  "concat (map (\<lambda>file. fst (fileResult rt env (getGitHubHeaders env) file)) files) =
     map (\<lambda>file. ConsoleError (''Failed to fetch file: '' @ path file))
       (filter (fetchFailed rt env) files)"
  by (induction files) (simp_all add: fileResult_fst)

lemma fulfilledValues_Cons:
  "fulfilledValues (r # rs) = fulfilledValues [r] @ fulfilledValues rs"
  by (cases "(r # rs)" rule: fulfilledValues.cases) simp_all

lemma fileResult_snd_length:
  "length (fulfilledValues [snd (fileResult rt env (getGitHubHeaders env) file)]) =
     (if becomesVirtualFile rt env file then 1 else 0)"
proof (cases "fetch rt (fileUrl env file) (getGitHubHeaders env)")
  case (Inl e)
  then show ?thesis by (simp add: fileResult_def becomesVirtualFile_def)
next
  case (Inr r)
  note r = Inr
  show ?thesis
  proof (cases "ok r")
    case False
    then show ?thesis using r by (simp add: fileResult_def becomesVirtualFile_def)
  next
    case True
    note okr = True
    show ?thesis
    proof (cases "resp_text r")
      case (Inl e)
      then show ?thesis using r okr by (simp add: fileResult_def becomesVirtualFile_def)
    next
      case (Inr content)
      note c = Inr
      consider (page) "extname (path file) = ''.mdx'' \<or> extname (path file) = ''.md''"
        | (meta) "extname (path file) \<noteq> ''.mdx''" "extname (path file) \<noteq> ''.md''" "extname (path file) = ''.json''"
        | (other) "extname (path file) \<noteq> ''.mdx''" "extname (path file) \<noteq> ''.md''" "extname (path file) \<noteq> ''.json''"
        by blast
      then show ?thesis
      proof cases
        case page
        then show ?thesis using r okr c
          by (cases "matter rt content") (auto simp add: fileResult_def becomesVirtualFile_def isRight_def)
      next
        case meta
        then show ?thesis using r okr c
          by (cases "JSON_parse rt content") (simp_all add: fileResult_def becomesVirtualFile_def isRight_def)
      next
        case other
        then show ?thesis using r okr c
          by (simp add: fileResult_def becomesVirtualFile_def isRight_def)
      qed
    qed
  qed
qed

lemma length_fulfilledValues:
  "length (fulfilledValues (map (\<lambda>file. snd (fileResult rt env (getGitHubHeaders env) file)) files)) =
     length (filter (becomesVirtualFile rt env) files)"
proof (induction files)
  case Nil
  then show ?case by simp
next
  case (Cons f fs)
  let ?g = "\<lambda>file. snd (fileResult rt env (getGitHubHeaders env) file)"
  have "length (fulfilledValues (?g f # map ?g fs)) =
        length (fulfilledValues [?g f] @ fulfilledValues (map ?g fs))"
    by (rule arg_cong[OF fulfilledValues_Cons])
  also have "\<dots> = (if becomesVirtualFile rt env f then 1 else 0) +
        length (filter (becomesVirtualFile rt env) fs)"
    using Cons.IH by (simp only: length_append fileResult_snd_length)
  finally show ?case by simp
qed

lemma becomes_not_failed: "becomesVirtualFile rt env file \<Longrightarrow> \<not> fetchFailed rt env file"
  by (auto simp add: becomesVirtualFile_def fetchFailed_def split: sum.splits)

lemma length_filter_mono:
  "(\<And>x. x \<in> set xs \<Longrightarrow> P x \<Longrightarrow> Q x) \<Longrightarrow> length (filter P xs) \<le> length (filter Q xs)"
  by (induction xs) auto

lemma length_filter_not:
  "length (filter (\<lambda>x. \<not> P x) xs) = length xs - length (filter P xs)"
  using sum_length_filter_compl[of P xs] by simp

lemma isFetch_logRateLimitInfo: "filter isFetch (logRateLimitInfo i) = []"
  by (simp add: logRateLimitInfo_def split: option.splits)

lemma isConsoleError_logRateLimitInfo: "filter isConsoleError (logRateLimitInfo i) = []"
  by (simp add: logRateLimitInfo_def split: option.splits)

lemma filter_isFetch_requests:
  "filter isFetch (map (\<lambda>file. Fetch (u file) hs) files) = map (\<lambda>file. Fetch (u file) hs) files"
  by (induction files) simp_all

lemma filter_isConsoleError_requests:
  "filter isConsoleError (map (\<lambda>file. Fetch (u file) hs) files) = []"
  by (induction files) simp_all

lemma filter_isFetch_errors:
  "filter isFetch (map (\<lambda>file. ConsoleError (m file)) files) = []"
  by (induction files) simp_all

lemma filter_isConsoleError_errors:
  "filter isConsoleError (map (\<lambda>file. ConsoleError (m file)) files) = map (\<lambda>file. ConsoleError (m file)) files"
  by (induction files) simp_all

lemma listed_requests:
  assumes "truthy (GITHUB_OWNER env)" and "truthy (GITHUB_REPO env)"
    and "fetch rt (apiUrl env) (getGitHubHeaders env) = Inr response" and "ok response"
    and "resp_json response = Inr data"
  shows "filter isFetch (fst (getGitHubFiles rt env)) =
     Fetch (apiUrl env) (getGitHubHeaders env) #
     map (\<lambda>file. Fetch (fileUrl env file) (getGitHubHeaders env)) (contentFiles env (tree data))"
  by (simp add: getGitHubFiles_listed[OF assms] fileResult_output isFetch_logRateLimitInfo
      filter_isFetch_requests filter_isFetch_errors)

lemma listed_errors:
  assumes "truthy (GITHUB_OWNER env)" and "truthy (GITHUB_REPO env)"
    and "fetch rt (apiUrl env) (getGitHubHeaders env) = Inr response" and "ok response"
    and "resp_json response = Inr data"
  shows "filter isConsoleError (fst (getGitHubFiles rt env)) =
     map (\<lambda>file. ConsoleError (''Failed to fetch file: '' @ path file))
       (filter (fetchFailed rt env) (contentFiles env (tree data)))"
  by (simp add: getGitHubFiles_listed[OF assms] fileResult_output isConsoleError_logRateLimitInfo
      filter_isConsoleError_requests filter_isConsoleError_errors)

text \<open>
  C4. For a successful listing response, the requests that \<open>getGitHubFiles\<close> issues are
  the listing request followed by one content request for each entry of the listing that
  is a blob and whose path starts with the content path, and for no other entry; their
  number is the number of such entries. Two listings with the same entries in a different
  order give the same requests, as a multiset.
\<close>

theorem attempted_files:
  assumes "truthy (GITHUB_OWNER env)" and "truthy (GITHUB_REPO env)"
    and "fetch rt (apiUrl env) (getGitHubHeaders env) = Inr response" and "ok response"
    and "resp_json response = Inr data"
  shows "filter isFetch (fst (getGitHubFiles rt env)) =
           Fetch (apiUrl env) (getGitHubHeaders env) #
           map (\<lambda>file. Fetch (fileUrl env file) (getGitHubHeaders env))
             (filter (\<lambda>item. type item = Blob \<and> prefix (GITHUB_CONTENT_PATH env) (path item))
                (tree data)) \<and>
         length (filter isFetch (fst (getGitHubFiles rt env))) =
           Suc (length (filter (\<lambda>item. type item = Blob \<and>
                                   prefix (GITHUB_CONTENT_PATH env) (path item)) (tree data))) \<and>
         (fetch rt' (apiUrl env) (getGitHubHeaders env) = Inr response' \<and> ok response' \<and>
          resp_json response' = Inr data' \<and> mset (tree data') = mset (tree data) \<longrightarrow>
          mset (filter isFetch (fst (getGitHubFiles rt' env))) =
          mset (filter isFetch (fst (getGitHubFiles rt env))))"
proof -
  have one: "filter isFetch (fst (getGitHubFiles rt env)) =
           Fetch (apiUrl env) (getGitHubHeaders env) #
           map (\<lambda>file. Fetch (fileUrl env file) (getGitHubHeaders env))
             (filter (\<lambda>item. type item = Blob \<and> prefix (GITHUB_CONTENT_PATH env) (path item))
                (tree data))"
    using listed_requests[OF assms] by (simp add: contentFiles_def)
  have two: "mset (filter isFetch (fst (getGitHubFiles rt' env))) =
          mset (filter isFetch (fst (getGitHubFiles rt env)))"
    if h: "fetch rt' (apiUrl env) (getGitHubHeaders env) = Inr response'" "ok response'"
      "resp_json response' = Inr data'" and m: "mset (tree data') = mset (tree data)"
  proof -
    have "mset (contentFiles env (tree data')) = mset (contentFiles env (tree data))"
      using m by (simp add: contentFiles_def)
    then have "mset (map (\<lambda>file. Fetch (fileUrl env file) (getGitHubHeaders env)) (contentFiles env (tree data'))) =
               mset (map (\<lambda>file. Fetch (fileUrl env file) (getGitHubHeaders env)) (contentFiles env (tree data)))"
      by simp
    then show ?thesis
      using listed_requests[OF assms] listed_requests[OF assms(1,2) h] by simp
  qed
  show ?thesis using one two by simp
qed

subsection \<open>The example listing, evaluated\<close>

lemma ex_listing:
  "fetch (exRuntime (exNetServed items hs)) (apiUrl exEnv) (getGitHubHeaders exEnv) =
     Inr (exResponse 200 ''OK'' hs items [])"
  by (simp add: exRuntime_def exNetServed_def)

lemma ex_listing_missing:
  "fetch (exRuntime (exNetIndexMissing items)) (apiUrl exEnv) (getGitHubHeaders exEnv) =
     Inr (exResponse 200 ''OK'' [] items [])"
  by (simp add: exRuntime_def exNetIndexMissing_def)

lemma ex_ok: "ok (exResponse 200 t hs items b)"
  by (simp add: ok_def exResponse_def)

lemma ex_json:
  "resp_json (exResponse st t hs items b) =
     Inr \<lparr>sha = ''0'', url = [], truncated = False, tree = items\<rparr>"
  by (simp add: exResponse_def)

lemma ex_contentFiles:
  "contentFiles exEnv exTree =
     [exItem ''content/docs/index.md'' Blob, exItem ''content/docs/logo.png'' Blob]"
  by (simp add: contentFiles_def exEnv_def exTree_def exItem_def)

lemma ex_urls:
  "apiUrl exEnv = ''https://api.github.com/repos/acme/site/git/trees/main?recursive=1''"
  "fileUrl exEnv (exItem ''content/docs/index.md'' Blob) =
     ''https://raw.githubusercontent.com/acme/site/main/content/docs/index.md''"
  "fileUrl exEnv (exItem ''content/docs/logo.png'' Blob) =
     ''https://raw.githubusercontent.com/acme/site/main/content/docs/logo.png''"
  "getGitHubHeaders exEnv = [(''Accept'', ''application/vnd.github.v3+json'')]"
  by (simp_all add: apiUrl_def fileUrl_def exEnv_def exItem_def template_def
      getGitHubHeaders_def truthy_def)

lemma ex_fields:
  "GITHUB_CONTENT_PATH exEnv = ''content/docs''"
  "path (exItem p t) = p"
  "type (exItem p t) = t"
  by (simp_all add: exEnv_def exItem_def)

lemma ex_extname:
  "extname ''content/docs/index.md'' = ''.md''"
  "extname ''content/docs/logo.png'' = ''.png''"
  "extname ''/content/docs/index.md'' = ''.md''"
  by (simp_all add: extname_def lastComponent_def)

lemma ex_served_index:
  "fileResult (exRuntime (exNetServed items hs)) exEnv (getGitHubHeaders exEnv)
     (exItem ''content/docs/index.md'' Blob) =
   ([], Fulfilled (Some (Page ''index.md'' [''title'' \<mapsto> JStr ''A'', ''content'' \<mapsto> JStr ''hello''])))"
  by (simp add: fileResult_def ex_urls exRuntime_def exNetServed_def exResponse_def ok_def
      ex_fields ex_extname exMatter_def)

lemma ex_served_logo:
  "fileResult (exRuntime (exNetServed items hs)) exEnv (getGitHubHeaders exEnv)
     (exItem ''content/docs/logo.png'' Blob) =
   ([ConsoleError ''Failed to fetch file: content/docs/logo.png''], Fulfilled None)"
  by (simp add: fileResult_def ex_urls exRuntime_def exNetServed_def exResponse_def ok_def
      ex_fields)

lemma ex_missing_index:
  "fileResult (exRuntime (exNetIndexMissing items)) exEnv (getGitHubHeaders exEnv)
     (exItem ''content/docs/index.md'' Blob) =
   ([ConsoleError ''Failed to fetch file: content/docs/index.md''], Fulfilled None)"
  by (simp add: fileResult_def ex_urls exRuntime_def exNetIndexMissing_def exResponse_def ok_def
      ex_fields)

lemma ex_missing_logo:
  "fileResult (exRuntime (exNetIndexMissing items)) exEnv (getGitHubHeaders exEnv)
     (exItem ''content/docs/logo.png'' Blob) = ([], Fulfilled None)"
  by (simp add: fileResult_def ex_urls exRuntime_def exNetIndexMissing_def exResponse_def ok_def
      ex_fields ex_extname)

lemma ex_failed_served:
  "\<not> fetchFailed (exRuntime (exNetServed items hs)) exEnv (exItem ''content/docs/index.md'' Blob)"
  "fetchFailed (exRuntime (exNetServed items hs)) exEnv (exItem ''content/docs/logo.png'' Blob)"
  by (simp_all add: fetchFailed_def ex_urls exRuntime_def exNetServed_def exResponse_def ok_def)

lemma ex_failed_missing:
  "fetchFailed (exRuntime (exNetIndexMissing items)) exEnv (exItem ''content/docs/index.md'' Blob)"
  "\<not> fetchFailed (exRuntime (exNetIndexMissing items)) exEnv (exItem ''content/docs/logo.png'' Blob)"
  by (simp_all add: fetchFailed_def ex_urls exRuntime_def exNetIndexMissing_def exResponse_def ok_def)

lemma ex_becomes_served:
  "becomesVirtualFile (exRuntime (exNetServed items hs)) exEnv (exItem ''content/docs/index.md'' Blob)"
  by (simp add: becomesVirtualFile_def ex_urls exRuntime_def exNetServed_def exResponse_def ok_def
      ex_fields ex_extname exMatter_def isRight_def)

lemma ex_run_served:
  "getGitHubFiles (exRuntime (exNetServed exTree [])) exEnv =
     ([Fetch ''https://api.github.com/repos/acme/site/git/trees/main?recursive=1''
         [(''Accept'', ''application/vnd.github.v3+json'')],
       ConsoleLog ''No rate limit information available'',
       Fetch ''https://raw.githubusercontent.com/acme/site/main/content/docs/index.md''
         [(''Accept'', ''application/vnd.github.v3+json'')],
       Fetch ''https://raw.githubusercontent.com/acme/site/main/content/docs/logo.png''
         [(''Accept'', ''application/vnd.github.v3+json'')],
       ConsoleError ''Failed to fetch file: content/docs/logo.png''],
      Inr [Page ''index.md'' [''title'' \<mapsto> JStr ''A'', ''content'' \<mapsto> JStr ''hello'']])"
proof -
  have p: "parseRateLimitHeaders (headers (exResponse 200 ''OK'' [] exTree [])) = None"
    by (simp add: parseRateLimitHeaders_def exResponse_def truthy_def)
  show ?thesis
    unfolding getGitHubFiles_listed[OF ex_owner_repo ex_listing ex_ok ex_json] p
    by (simp add: ex_contentFiles ex_served_index ex_served_logo logRateLimitInfo_def)
       (simp add: ex_urls)
qed

lemma ex_run_missing:
  "getGitHubFiles (exRuntime (exNetIndexMissing exTree)) exEnv =
     ([Fetch ''https://api.github.com/repos/acme/site/git/trees/main?recursive=1''
         [(''Accept'', ''application/vnd.github.v3+json'')],
       ConsoleLog ''No rate limit information available'',
       Fetch ''https://raw.githubusercontent.com/acme/site/main/content/docs/index.md''
         [(''Accept'', ''application/vnd.github.v3+json'')],
       Fetch ''https://raw.githubusercontent.com/acme/site/main/content/docs/logo.png''
         [(''Accept'', ''application/vnd.github.v3+json'')],
       ConsoleError ''Failed to fetch file: content/docs/index.md''],
      Inr [])"
proof -
  have p: "parseRateLimitHeaders (headers (exResponse 200 ''OK'' [] exTree [])) = None"
    by (simp add: parseRateLimitHeaders_def exResponse_def truthy_def)
  show ?thesis
    unfolding getGitHubFiles_listed[OF ex_owner_repo ex_listing_missing ex_ok ex_json] p
    by (simp add: ex_contentFiles ex_missing_index ex_missing_logo logRateLimitInfo_def)
       (simp add: ex_urls)
qed

subsection \<open>Witnesses on the example listing\<close>

theorem attempted_files_witness:
  "filter isFetch (fst (getGitHubFiles (exRuntime (exNetServed exTree [])) exEnv)) =
     [Fetch ''https://api.github.com/repos/acme/site/git/trees/main?recursive=1''
        [(''Accept'', ''application/vnd.github.v3+json'')],
      Fetch ''https://raw.githubusercontent.com/acme/site/main/content/docs/index.md''
        [(''Accept'', ''application/vnd.github.v3+json'')],
      Fetch ''https://raw.githubusercontent.com/acme/site/main/content/docs/logo.png''
        [(''Accept'', ''application/vnd.github.v3+json'')]] \<and>
   mset (filter isFetch (fst (getGitHubFiles (exRuntime (exNetServed (rev exTree) [])) exEnv))) =
   mset (filter isFetch (fst (getGitHubFiles (exRuntime (exNetServed exTree [])) exEnv)))"
proof -
  note t = attempted_files[OF ex_owner_repo ex_listing[of exTree "[]"] ex_ok ex_json,
      where rt' = "exRuntime (exNetServed (rev exTree) [])"
        and response' = "exResponse 200 ''OK'' [] (rev exTree) []"
        and data' = "\<lparr>sha = ''0'', url = [], truncated = False, tree = rev exTree\<rparr>"]
  have c: "filter (\<lambda>item. type item = Blob \<and> prefix (GITHUB_CONTENT_PATH exEnv) (path item)) exTree =
      [exItem ''content/docs/index.md'' Blob, exItem ''content/docs/logo.png'' Blob]"
    using ex_contentFiles by (simp add: contentFiles_def)
  have one: "filter isFetch (fst (getGitHubFiles (exRuntime (exNetServed exTree [])) exEnv)) =
     [Fetch ''https://api.github.com/repos/acme/site/git/trees/main?recursive=1''
        [(''Accept'', ''application/vnd.github.v3+json'')],
      Fetch ''https://raw.githubusercontent.com/acme/site/main/content/docs/index.md''
        [(''Accept'', ''application/vnd.github.v3+json'')],
      Fetch ''https://raw.githubusercontent.com/acme/site/main/content/docs/logo.png''
        [(''Accept'', ''application/vnd.github.v3+json'')]]"
    using t[THEN conjunct1] by (simp add: c ex_urls)
  have two: "mset (filter isFetch (fst (getGitHubFiles (exRuntime (exNetServed (rev exTree) [])) exEnv))) =
      mset (filter isFetch (fst (getGitHubFiles (exRuntime (exNetServed exTree [])) exEnv)))"
  proof -
    have h: "fetch (exRuntime (exNetServed (rev exTree) [])) (apiUrl exEnv) (getGitHubHeaders exEnv) =
          Inr (exResponse 200 ''OK'' [] (rev exTree) []) \<and>
        ok (exResponse 200 ''OK'' [] (rev exTree) []) \<and>
        resp_json (exResponse 200 ''OK'' [] (rev exTree) []) =
          Inr \<lparr>sha = ''0'', url = [], truncated = False, tree = rev exTree\<rparr> \<and>
        mset (tree \<lparr>sha = ''0'', url = [], truncated = False, tree = rev exTree\<rparr>) =
        mset (tree \<lparr>sha = ''0'', url = [], truncated = False, tree = exTree\<rparr>)"
      by (simp add: ex_listing ex_ok ex_json)
    show ?thesis by (rule t[THEN conjunct2, THEN conjunct2, THEN mp, OF h])
  qed
  show ?thesis using one two by (rule conjI)
qed

theorem absent_rate_limit_headers_witness:
  "parseRateLimitHeaders (map_of (tl (exRateHeaders ''5''))) = None \<and>
   logRateLimitInfo (parseRateLimitHeaders (map_of (tl (exRateHeaders ''5'')))) =
     [ConsoleLog ''No rate limit information available''] \<and>
   getGitHubFiles (exRuntime (exNetRefused 500 (tl (exRateHeaders ''5'')))) exEnv =
     ([Fetch ''https://api.github.com/repos/acme/site/git/trees/main?recursive=1''
         [(''Accept'', ''application/vnd.github.v3+json'')],
       ConsoleLog ''No rate limit information available'',
       ConsoleError ''GitHub API error (500): GitHub API error: Forbidden''],
      Inl (GitHubApiError ''GitHub API error: Forbidden'' 500)) \<and>
   getGitHubFiles (exRuntime (exNetServed exTree (tl (exRateHeaders ''5'')))) exEnv =
     ([Fetch ''https://api.github.com/repos/acme/site/git/trees/main?recursive=1''
         [(''Accept'', ''application/vnd.github.v3+json'')],
       ConsoleLog ''No rate limit information available'',
       Fetch ''https://raw.githubusercontent.com/acme/site/main/content/docs/index.md''
         [(''Accept'', ''application/vnd.github.v3+json'')],
       Fetch ''https://raw.githubusercontent.com/acme/site/main/content/docs/logo.png''
         [(''Accept'', ''application/vnd.github.v3+json'')],
       ConsoleError ''Failed to fetch file: content/docs/logo.png''],
      Inr [Page ''index.md'' [''title'' \<mapsto> JStr ''A'', ''content'' \<mapsto> JStr ''hello'']])"
proof -
  let ?hs = "map_of (tl (exRateHeaders ''5''))"
  let ?served = "exResponse 200 ''OK'' (tl (exRateHeaders ''5'')) exTree []"
  let ?refused = "exResponse 500 ''Forbidden'' (tl (exRateHeaders ''5'')) [] []"
  have a: "?hs ''x-ratelimit-limit'' = None \<or> ?hs ''x-ratelimit-remaining'' = None \<or>
           ?hs ''x-ratelimit-reset'' = None \<or> ?hs ''x-ratelimit-used'' = None"
    by (simp add: exRateHeaders_def)
  note served = absent_rate_limit_headers[OF a,
      where env = exEnv and rt = "exRuntime (exNetServed exTree (tl (exRateHeaders ''5'')))"
        and response = ?served
        and data = "\<lparr>sha = ''0'', url = [], truncated = False, tree = exTree\<rparr>"]
  note refused = absent_rate_limit_headers[OF a,
      where env = exEnv and rt = "exRuntime (exNetRefused 500 (tl (exRateHeaders ''5'')))"
        and response = ?refused]
  have gs: "truthy (GITHUB_OWNER exEnv) \<and> truthy (GITHUB_REPO exEnv) \<and>
      fetch (exRuntime (exNetServed exTree (tl (exRateHeaders ''5'')))) (apiUrl exEnv)
        (getGitHubHeaders exEnv) = Inr ?served \<and>
      headers ?served = ?hs"
    using ex_owner_repo by (simp add: ex_listing) (simp add: exResponse_def)
  have gr: "truthy (GITHUB_OWNER exEnv) \<and> truthy (GITHUB_REPO exEnv) \<and>
      fetch (exRuntime (exNetRefused 500 (tl (exRateHeaders ''5'')))) (apiUrl exEnv)
        (getGitHubHeaders exEnv) = Inr ?refused \<and>
      headers ?refused = ?hs"
    using ex_owner_repo by (simp add: exRuntime_def exNetRefused_def) (simp add: exResponse_def)
  have os: "ok ?served \<and>
      resp_json ?served = Inr \<lparr>sha = ''0'', url = [], truncated = False, tree = exTree\<rparr>"
    by (simp add: ex_ok ex_json)
  have nr: "\<not> ok ?refused" by (simp add: ok_def exResponse_def)
  have n500: "show_nat 500 = ''500''"
    by (simp add: show_nat.simps[of 500] show_nat.simps[of 50] show_nat_digit digit_char_def)
  have run_refused:
    "getGitHubFiles (exRuntime (exNetRefused 500 (tl (exRateHeaders ''5'')))) exEnv =
     ([Fetch ''https://api.github.com/repos/acme/site/git/trees/main?recursive=1''
         [(''Accept'', ''application/vnd.github.v3+json'')],
       ConsoleLog ''No rate limit information available'',
       ConsoleError ''GitHub API error (500): GitHub API error: Forbidden''],
      Inl (GitHubApiError ''GitHub API error: Forbidden'' 500))"
    using refused[THEN conjunct2, THEN conjunct2, THEN mp, OF gr, THEN conjunct2,
        THEN conjunct1, THEN mp, OF nr]
    by (simp add: ex_urls exResponse_def n500)
  have snd_served:
    "snd (getGitHubFiles (exRuntime (exNetServed exTree (tl (exRateHeaders ''5'')))) exEnv) =
       Inr [Page ''index.md'' [''title'' \<mapsto> JStr ''A'', ''content'' \<mapsto> JStr ''hello'']]"
    using served[THEN conjunct2, THEN conjunct2, THEN mp, OF gs, THEN conjunct2,
        THEN conjunct2, THEN conjunct2, THEN mp, OF os, THEN conjunct2]
    by (simp add: ex_contentFiles ex_served_index ex_served_logo)
  have fst_served:
    "fst (getGitHubFiles (exRuntime (exNetServed exTree (tl (exRateHeaders ''5'')))) exEnv) =
     [Fetch ''https://api.github.com/repos/acme/site/git/trees/main?recursive=1''
         [(''Accept'', ''application/vnd.github.v3+json'')],
       ConsoleLog ''No rate limit information available'',
       Fetch ''https://raw.githubusercontent.com/acme/site/main/content/docs/index.md''
         [(''Accept'', ''application/vnd.github.v3+json'')],
       Fetch ''https://raw.githubusercontent.com/acme/site/main/content/docs/logo.png''
         [(''Accept'', ''application/vnd.github.v3+json'')],
       ConsoleError ''Failed to fetch file: content/docs/logo.png'']"
  proof -
    have h: "parseRateLimitHeaders (headers ?served) = None"
      using served[THEN conjunct1] gs by simp
    show ?thesis
      unfolding getGitHubFiles_listed[OF ex_owner_repo
          gs[THEN conjunct2, THEN conjunct2, THEN conjunct1] os[THEN conjunct1] os[THEN conjunct2]] h
      by (simp add: ex_contentFiles ex_served_index ex_served_logo logRateLimitInfo_def)
         (simp add: ex_urls)
  qed
  have run_served:
    "getGitHubFiles (exRuntime (exNetServed exTree (tl (exRateHeaders ''5'')))) exEnv =
     ([Fetch ''https://api.github.com/repos/acme/site/git/trees/main?recursive=1''
         [(''Accept'', ''application/vnd.github.v3+json'')],
       ConsoleLog ''No rate limit information available'',
       Fetch ''https://raw.githubusercontent.com/acme/site/main/content/docs/index.md''
         [(''Accept'', ''application/vnd.github.v3+json'')],
       Fetch ''https://raw.githubusercontent.com/acme/site/main/content/docs/logo.png''
         [(''Accept'', ''application/vnd.github.v3+json'')],
       ConsoleError ''Failed to fetch file: content/docs/logo.png''],
      Inr [Page ''index.md'' [''title'' \<mapsto> JStr ''A'', ''content'' \<mapsto> JStr ''hello'']])"
    using fst_served snd_served by (simp add: prod_eq_iff)
  show ?thesis
    using served[THEN conjunct1] served[THEN conjunct2, THEN conjunct1] run_refused run_served
    by (intro conjI)
qed

subsection \<open>Files whose request fails\<close>

text \<open>
  C2, as stated, fails: a content file that is served but is neither Markdown nor JSON
  is attempted, does not fail, and gives no virtual file. On the example listing with
  \<^verbatim>\<open>index.md\<close> answered 404 and \<^verbatim>\<open>logo.png\<close> served, two files are attempted (three
  requests with the listing), one fails, and the result is empty, not of length 1.
\<close>

theorem result_count_counterexample:
  "snd (getGitHubFiles (exRuntime (exNetIndexMissing exTree)) exEnv) = Inr [] \<and>
   length (filter isFetch (fst (getGitHubFiles (exRuntime (exNetIndexMissing exTree)) exEnv))) = 3 \<and>
   length (contentFiles exEnv exTree) = 2 \<and>
   length (filter (fetchFailed (exRuntime (exNetIndexMissing exTree)) exEnv)
             (contentFiles exEnv exTree)) = 1"
  by (simp add: ex_run_missing ex_contentFiles ex_failed_missing)

text \<open>
  C2, amended. For a successful listing response \<open>getGitHubFiles\<close> returns a file list
  whatever the content requests are answered with. Every content file is requested; for
  each one answered with a non-success status, and for no other, a line
  "Failed to fetch file" is printed. The list has one entry for each content file that
  becomes a virtual file (served, body read, extension \<^verbatim>\<open>.md\<close>, \<^verbatim>\<open>.mdx\<close> or \<^verbatim>\<open>.json\<close>,
  parsed without exception): at most attempted minus failed entries, and exactly that
  many when every content file that did not fail becomes a virtual file.
\<close>

theorem failed_files_excluded:
  assumes "truthy (GITHUB_OWNER env)" and "truthy (GITHUB_REPO env)"
    and "fetch rt (apiUrl env) (getGitHubHeaders env) = Inr response" and "ok response"
    and "resp_json response = Inr data"
  shows "(\<exists>files. snd (getGitHubFiles rt env) = Inr files \<and>
           length files = length (filter (becomesVirtualFile rt env) (contentFiles env (tree data))) \<and>
           length files \<le> length (contentFiles env (tree data)) -
                            length (filter (fetchFailed rt env) (contentFiles env (tree data))) \<and>
           ((\<forall>file \<in> set (contentFiles env (tree data)).
               \<not> fetchFailed rt env file \<longrightarrow> becomesVirtualFile rt env file) \<longrightarrow>
            length files = length (contentFiles env (tree data)) -
                           length (filter (fetchFailed rt env) (contentFiles env (tree data))))) \<and>
         filter isConsoleError (fst (getGitHubFiles rt env)) =
           map (\<lambda>file. ConsoleError (''Failed to fetch file: '' @ path file))
             (filter (fetchFailed rt env) (contentFiles env (tree data))) \<and>
         length (filter isFetch (fst (getGitHubFiles rt env))) =
           Suc (length (contentFiles env (tree data)))"
proof -
  let ?cs = "contentFiles env (tree data)"
  let ?files = "fulfilledValues (map (\<lambda>file. snd (fileResult rt env (getGitHubHeaders env) file)) ?cs)"
  have res: "snd (getGitHubFiles rt env) = Inr ?files"
    by (simp add: getGitHubFiles_listed[OF assms])
  have len: "length ?files = length (filter (becomesVirtualFile rt env) ?cs)"
    by (rule length_fulfilledValues)
  have le: "length (filter (becomesVirtualFile rt env) ?cs) \<le>
      length (filter (\<lambda>file. \<not> fetchFailed rt env file) ?cs)"
    by (rule length_filter_mono) (rule becomes_not_failed)
  have eq: "length (filter (becomesVirtualFile rt env) ?cs) =
      length (filter (\<lambda>file. \<not> fetchFailed rt env file) ?cs)"
    if "\<forall>file \<in> set ?cs. \<not> fetchFailed rt env file \<longrightarrow> becomesVirtualFile rt env file"
  proof -
    have "filter (becomesVirtualFile rt env) ?cs = filter (\<lambda>file. \<not> fetchFailed rt env file) ?cs"
      using that becomes_not_failed by (intro filter_cong) auto
    then show ?thesis by simp
  qed
  have one: "\<exists>files. snd (getGitHubFiles rt env) = Inr files \<and>
           length files = length (filter (becomesVirtualFile rt env) ?cs) \<and>
           length files \<le> length ?cs - length (filter (fetchFailed rt env) ?cs) \<and>
           ((\<forall>file \<in> set ?cs. \<not> fetchFailed rt env file \<longrightarrow> becomesVirtualFile rt env file) \<longrightarrow>
            length files = length ?cs - length (filter (fetchFailed rt env) ?cs))"
    using res len le eq by (auto simp add: length_filter_not)
  have two: "filter isConsoleError (fst (getGitHubFiles rt env)) =
           map (\<lambda>file. ConsoleError (''Failed to fetch file: '' @ path file))
             (filter (fetchFailed rt env) ?cs)"
    by (rule listed_errors[OF assms])
  have three: "length (filter isFetch (fst (getGitHubFiles rt env))) = Suc (length ?cs)"
    by (simp add: listed_requests[OF assms])
  show ?thesis using one two three by (intro conjI)
qed

theorem failed_files_excluded_witness:
  "snd (getGitHubFiles (exRuntime (exNetServed exTree [])) exEnv) =
     Inr [Page ''index.md'' [''title'' \<mapsto> JStr ''A'', ''content'' \<mapsto> JStr ''hello'']] \<and>
   length (contentFiles exEnv exTree) -
     length (filter (fetchFailed (exRuntime (exNetServed exTree [])) exEnv)
               (contentFiles exEnv exTree)) = 1 \<and>
   filter isConsoleError (fst (getGitHubFiles (exRuntime (exNetServed exTree [])) exEnv)) =
     [ConsoleError ''Failed to fetch file: content/docs/logo.png'']"
proof -
  let ?rt = "exRuntime (exNetServed exTree [])"
  note t = failed_files_excluded[OF ex_owner_repo ex_listing[of exTree "[]"] ex_ok ex_json]
  have all: "\<forall>file \<in> set (contentFiles exEnv exTree).
      \<not> fetchFailed ?rt exEnv file \<longrightarrow> becomesVirtualFile ?rt exEnv file"
    by (simp add: ex_contentFiles ex_failed_served ex_becomes_served)
  from t all obtain files where f: "snd (getGitHubFiles ?rt exEnv) = Inr files"
    "length files = length (contentFiles exEnv exTree) -
       length (filter (fetchFailed ?rt exEnv) (contentFiles exEnv exTree))"
    by auto
  have one: "length (contentFiles exEnv exTree) -
     length (filter (fetchFailed ?rt exEnv) (contentFiles exEnv exTree)) = 1"
  proof -
    have "files = [Page ''index.md'' [''title'' \<mapsto> JStr ''A'', ''content'' \<mapsto> JStr ''hello'']]"
      using f(1) by (simp add: ex_run_served)
    then have "length files = 1" by simp
    then show ?thesis using f(2) by simp
  qed
  have two: "filter isConsoleError (fst (getGitHubFiles ?rt exEnv)) =
     [ConsoleError ''Failed to fetch file: content/docs/logo.png'']"
    using t[THEN conjunct2, THEN conjunct1]
    by (simp add: ex_contentFiles ex_failed_served ex_fields)
  show ?thesis using one two by (simp add: ex_run_served)
qed

subsection \<open>Markdown files become pages\<close>

lemma localFile_page:
  assumes "extname p = ''.md'' \<or> extname p = ''.mdx''"
    and "matter rt content = Inr (fm, body)"
  shows "localFile rt (p, content) =
     Inr [Page (path_relative rt ''content/docs'' (path_join rt (cwd rt) p))
            (fm(''content'' \<mapsto> JStr body))]"
  using assms by (auto simp add: localFile_def)

lemma fileResult_page:
  assumes "extname (path file) = ''.md'' \<or> extname (path file) = ''.mdx''"
    and "matter rt content = Inr (fm, body)"
    and "fetch rt (fileUrl env file) hs = Inr fileResponse" and "ok fileResponse"
    and "resp_text fileResponse = Inr content"
  shows "fileResult rt env hs file =
     ([], Fulfilled (Some (Page (path_relative rt (GITHUB_CONTENT_PATH env) (path file))
                             (fm(''content'' \<mapsto> JStr body)))))"
  using assms by (auto simp add: fileResult_def)

lemma flatMap_member:
  "flatMap f xs = Inr ys \<Longrightarrow> x \<in> set xs \<Longrightarrow> f x = Inr zs \<Longrightarrow> set zs \<subseteq> set ys"
proof (induction xs arbitrary: ys)
  case Nil
  then show ?case by simp
next
  case (Cons a as)
  from Cons.prems(1) obtain us vs where a: "f a = Inr us" and as: "flatMap f as = Inr vs"
    and ys: "ys = us @ vs"
    by (auto split: sum.splits)
  show ?case
  proof (cases "x = a")
    case True
    then show ?thesis using a ys Cons.prems(3) by auto
  next
    case False
    then have "x \<in> set as" using Cons.prems(2) by simp
    then have "set zs \<subseteq> set vs" using Cons.IH[OF as _ Cons.prems(3)] by simp
    then show ?thesis using ys by auto
  qed
qed

lemma fulfilledValues_member:
  "Fulfilled (Some v) \<in> set rs \<Longrightarrow> v \<in> set (fulfilledValues rs)"
  by (induction rs rule: fulfilledValues.induct) auto

text \<open>
  C5. A file whose extension is \<^verbatim>\<open>.md\<close> or \<^verbatim>\<open>.mdx\<close> and whose front-matter parses
  gives a page whose data is the front-matter mapping merged with the body under the key
  \<^verbatim>\<open>content\<close>: in local acquisition as the result of the callback, and in the list
  returned when no file throws; in remote acquisition as the value of the file's promise
  when the file is served, and in the list returned when the file is a content file of
  the listing.
\<close>

theorem markdown_page_data:
  assumes "extname p = ''.md'' \<or> extname p = ''.mdx''"
    and "matter rt content = Inr (fm, body)"
  shows "localFile rt (p, content) =
           Inr [Page (path_relative rt ''content/docs'' (path_join rt (cwd rt) p))
                  (fm ++ [''content'' \<mapsto> JStr body])] \<and>
         ((p, content) \<in> set (glob rt) \<and> getLocalFiles rt = Inr files \<longrightarrow>
            Page (path_relative rt ''content/docs'' (path_join rt (cwd rt) p))
              (fm ++ [''content'' \<mapsto> JStr body]) \<in> set files) \<and>
         (path file = p \<and> fetch rt (fileUrl env file) (getGitHubHeaders env) = Inr fileResponse \<and>
          ok fileResponse \<and> resp_text fileResponse = Inr content \<longrightarrow>
            fileResult rt env (getGitHubHeaders env) file =
              ([], Fulfilled (Some (Page (path_relative rt (GITHUB_CONTENT_PATH env) p)
                                      (fm ++ [''content'' \<mapsto> JStr body])))) \<and>
            (truthy (GITHUB_OWNER env) \<and> truthy (GITHUB_REPO env) \<and>
             fetch rt (apiUrl env) (getGitHubHeaders env) = Inr response \<and> ok response \<and>
             resp_json response = Inr data \<and> file \<in> set (contentFiles env (tree data)) \<longrightarrow>
               (\<exists>remote. snd (getGitHubFiles rt env) = Inr remote \<and>
                  Page (path_relative rt (GITHUB_CONTENT_PATH env) p)
                    (fm ++ [''content'' \<mapsto> JStr body]) \<in> set remote)))"
proof -
  have m: "fm ++ [''content'' \<mapsto> JStr body] = fm(''content'' \<mapsto> JStr body)"
    by simp
  have one: "localFile rt (p, content) =
           Inr [Page (path_relative rt ''content/docs'' (path_join rt (cwd rt) p))
                  (fm ++ [''content'' \<mapsto> JStr body])]"
    unfolding m by (rule localFile_page[OF assms])
  have two: "Page (path_relative rt ''content/docs'' (path_join rt (cwd rt) p))
              (fm ++ [''content'' \<mapsto> JStr body]) \<in> set files"
    if "(p, content) \<in> set (glob rt)" and "getLocalFiles rt = Inr files"
    using flatMap_member[OF that(2)[unfolded getLocalFiles_def] that(1) one] by simp
  have three: "fileResult rt env (getGitHubHeaders env) file =
              ([], Fulfilled (Some (Page (path_relative rt (GITHUB_CONTENT_PATH env) p)
                                      (fm ++ [''content'' \<mapsto> JStr body]))))"
    if "path file = p" and "fetch rt (fileUrl env file) (getGitHubHeaders env) = Inr fileResponse"
      and "ok fileResponse" and "resp_text fileResponse = Inr content"
    unfolding m using fileResult_page[OF _ assms(2) that(2,3,4)] assms(1) that(1) by simp
  have four: "\<exists>remote. snd (getGitHubFiles rt env) = Inr remote \<and>
                  Page (path_relative rt (GITHUB_CONTENT_PATH env) p)
                    (fm ++ [''content'' \<mapsto> JStr body]) \<in> set remote"
    if f: "path file = p" "fetch rt (fileUrl env file) (getGitHubHeaders env) = Inr fileResponse"
      "ok fileResponse" "resp_text fileResponse = Inr content"
      and l: "truthy (GITHUB_OWNER env)" "truthy (GITHUB_REPO env)"
        "fetch rt (apiUrl env) (getGitHubHeaders env) = Inr response" "ok response"
        "resp_json response = Inr data"
      and c: "file \<in> set (contentFiles env (tree data))"
  proof -
    let ?page = "Page (path_relative rt (GITHUB_CONTENT_PATH env) p) (fm ++ [''content'' \<mapsto> JStr body])"
    let ?rs = "map (\<lambda>file. snd (fileResult rt env (getGitHubHeaders env) file)) (contentFiles env (tree data))"
    have "snd (fileResult rt env (getGitHubHeaders env) file) = Fulfilled (Some ?page)"
      using three[OF f] by simp
    then have "Fulfilled (Some ?page) \<in> set ?rs"
      using c by (metis (no_types, lifting) image_eqI list.set_map)
    then have "?page \<in> set (fulfilledValues ?rs)" by (rule fulfilledValues_member)
    moreover have "snd (getGitHubFiles rt env) = Inr (fulfilledValues ?rs)"
      by (simp add: getGitHubFiles_listed[OF l])
    ultimately show ?thesis by blast
  qed
  show ?thesis using one two three four by blast
qed

theorem markdown_page_data_witness:
  "localFile (exRuntime (exNetServed exTree [])) (''/content/docs/index.md'', exDoc) =
     Inr [Page ''index.md'' [''title'' \<mapsto> JStr ''A'', ''content'' \<mapsto> JStr ''hello'']] \<and>
   getLocalFiles (exRuntime (exNetServed exTree [])) =
     Inr [Page ''index.md'' [''title'' \<mapsto> JStr ''A'', ''content'' \<mapsto> JStr ''hello'']] \<and>
   fileResult (exRuntime (exNetServed exTree [])) exEnv (getGitHubHeaders exEnv)
       (exItem ''content/docs/index.md'' Blob) =
     ([], Fulfilled (Some (Page ''index.md''
                             [''title'' \<mapsto> JStr ''A'', ''content'' \<mapsto> JStr ''hello''])))"
proof -
  let ?rt = "exRuntime (exNetServed exTree [])"
  have e: "extname ''/content/docs/index.md'' = ''.md'' \<or> extname ''/content/docs/index.md'' = ''.mdx''"
    by (simp add: ex_extname)
  have e': "extname ''content/docs/index.md'' = ''.md'' \<or> extname ''content/docs/index.md'' = ''.mdx''"
    by (simp add: ex_extname)
  have m: "matter ?rt exDoc = Inr ([''title'' \<mapsto> JStr ''A''], ''hello'')"
    by (simp add: exRuntime_def exMatter_def)
  have r: "path (exItem ''content/docs/index.md'' Blob) = ''content/docs/index.md'' \<and>
      fetch ?rt (fileUrl exEnv (exItem ''content/docs/index.md'' Blob)) (getGitHubHeaders exEnv) =
        Inr (exResponse 200 ''OK'' [] [] exDoc) \<and>
      ok (exResponse 200 ''OK'' [] [] exDoc) \<and>
      resp_text (exResponse 200 ''OK'' [] [] exDoc) = Inr exDoc"
    by (simp add: ex_fields ex_urls exRuntime_def exNetServed_def ex_ok) (simp add: exResponse_def)
  have g: "getLocalFiles ?rt = flatMap (localFile ?rt) [(''/content/docs/index.md'', exDoc)]"
    by (simp add: getLocalFiles_def exRuntime_def)
  have one: "localFile ?rt (''/content/docs/index.md'', exDoc) =
     Inr [Page ''index.md'' [''title'' \<mapsto> JStr ''A'', ''content'' \<mapsto> JStr ''hello'']]"
    using markdown_page_data[OF e m, THEN conjunct1] by (simp add: exRuntime_def)
  have two: "fileResult ?rt exEnv (getGitHubHeaders exEnv) (exItem ''content/docs/index.md'' Blob) =
     ([], Fulfilled (Some (Page ''index.md''
                             [''title'' \<mapsto> JStr ''A'', ''content'' \<mapsto> JStr ''hello''])))"
    using markdown_page_data[OF e' m, THEN conjunct2, THEN conjunct2, THEN mp, OF r, THEN conjunct1]
    by (simp add: exRuntime_def ex_fields)
  show ?thesis using one two g by simp
qed

text \<open>
  C9. When the front-matter of a \<^verbatim>\<open>.md\<close> or \<^verbatim>\<open>.mdx\<close> file has a key \<^verbatim>\<open>content\<close>
  itself, the page made from the file has data that maps \<^verbatim>\<open>content\<close> to the body and
  not to the front-matter value, and that agrees with the front-matter on every other
  key. In local acquisition this page is the result of the callback and is in the list
  that \<open>getLocalFiles\<close> returns; in remote acquisition it is the value of the file's
  promise when the file is served, and is in the list that \<open>getGitHubFiles\<close> returns
  when the file is a content file of the listing.
\<close>

theorem content_key_is_body:
  assumes "extname p = ''.md'' \<or> extname p = ''.mdx''"
    and "matter rt content = Inr (fm, body)"
    and "fm ''content'' = Some v"
  shows "(\<exists>d. d ''content'' = Some (JStr body) \<and> (\<forall>k. k \<noteq> ''content'' \<longrightarrow> d k = fm k) \<and>
            localFile rt (p, content) =
              Inr [Page (path_relative rt ''content/docs'' (path_join rt (cwd rt) p)) d] \<and>
            ((p, content) \<in> set (glob rt) \<and> getLocalFiles rt = Inr files \<longrightarrow>
               Page (path_relative rt ''content/docs'' (path_join rt (cwd rt) p)) d \<in> set files)) \<and>
         (path file = p \<and> fetch rt (fileUrl env file) (getGitHubHeaders env) = Inr fileResponse \<and>
          ok fileResponse \<and> resp_text fileResponse = Inr content \<longrightarrow>
          (\<exists>d. d ''content'' = Some (JStr body) \<and> (\<forall>k. k \<noteq> ''content'' \<longrightarrow> d k = fm k) \<and>
             fileResult rt env (getGitHubHeaders env) file =
               ([], Fulfilled (Some (Page (path_relative rt (GITHUB_CONTENT_PATH env) p) d))) \<and>
             (truthy (GITHUB_OWNER env) \<and> truthy (GITHUB_REPO env) \<and>
              fetch rt (apiUrl env) (getGitHubHeaders env) = Inr response \<and> ok response \<and>
              resp_json response = Inr data \<and> file \<in> set (contentFiles env (tree data)) \<longrightarrow>
                (\<exists>remote. snd (getGitHubFiles rt env) = Inr remote \<and>
                   Page (path_relative rt (GITHUB_CONTENT_PATH env) p) d \<in> set remote))))"
proof -
  let ?d = "fm(''content'' \<mapsto> JStr body)"
  let ?local = "Page (path_relative rt ''content/docs'' (path_join rt (cwd rt) p)) ?d"
  let ?remote = "Page (path_relative rt (GITHUB_CONTENT_PATH env) p) ?d"
  have key: "?d ''content'' = Some (JStr body)" and rest: "\<forall>k. k \<noteq> ''content'' \<longrightarrow> ?d k = fm k"
    by simp_all
  have callback: "localFile rt (p, content) = Inr [?local]"
    by (rule localFile_page[OF assms(1,2)])
  have listed: "?local \<in> set files"
    if "(p, content) \<in> set (glob rt)" and "getLocalFiles rt = Inr files"
    using flatMap_member[OF that(2)[unfolded getLocalFiles_def] that(1) callback] by simp
  have one: "\<exists>d. d ''content'' = Some (JStr body) \<and> (\<forall>k. k \<noteq> ''content'' \<longrightarrow> d k = fm k) \<and>
            localFile rt (p, content) =
              Inr [Page (path_relative rt ''content/docs'' (path_join rt (cwd rt) p)) d] \<and>
            ((p, content) \<in> set (glob rt) \<and> getLocalFiles rt = Inr files \<longrightarrow>
               Page (path_relative rt ''content/docs'' (path_join rt (cwd rt) p)) d \<in> set files)"
    using key rest callback listed by (intro exI[of _ ?d]) blast
  have two: "\<exists>d. d ''content'' = Some (JStr body) \<and> (\<forall>k. k \<noteq> ''content'' \<longrightarrow> d k = fm k) \<and>
             fileResult rt env (getGitHubHeaders env) file =
               ([], Fulfilled (Some (Page (path_relative rt (GITHUB_CONTENT_PATH env) p) d))) \<and>
             (truthy (GITHUB_OWNER env) \<and> truthy (GITHUB_REPO env) \<and>
              fetch rt (apiUrl env) (getGitHubHeaders env) = Inr response \<and> ok response \<and>
              resp_json response = Inr data \<and> file \<in> set (contentFiles env (tree data)) \<longrightarrow>
                (\<exists>remote. snd (getGitHubFiles rt env) = Inr remote \<and>
                   Page (path_relative rt (GITHUB_CONTENT_PATH env) p) d \<in> set remote))"
    if f: "path file = p" "fetch rt (fileUrl env file) (getGitHubHeaders env) = Inr fileResponse"
      "ok fileResponse" "resp_text fileResponse = Inr content"
  proof -
    have promise: "fileResult rt env (getGitHubHeaders env) file = ([], Fulfilled (Some ?remote))"
      using fileResult_page[OF _ assms(2) f(2,3,4)] assms(1) f(1) by simp
    have returned: "\<exists>remote. snd (getGitHubFiles rt env) = Inr remote \<and> ?remote \<in> set remote"
      if l: "truthy (GITHUB_OWNER env)" "truthy (GITHUB_REPO env)"
        "fetch rt (apiUrl env) (getGitHubHeaders env) = Inr response" "ok response"
        "resp_json response = Inr data"
        and c: "file \<in> set (contentFiles env (tree data))"
    proof -
      let ?rs = "map (\<lambda>file. snd (fileResult rt env (getGitHubHeaders env) file))
                   (contentFiles env (tree data))"
      have "snd (fileResult rt env (getGitHubHeaders env) file) = Fulfilled (Some ?remote)"
        using promise by simp
      then have "Fulfilled (Some ?remote) \<in> set ?rs"
        using c by (metis (no_types, lifting) image_eqI list.set_map)
      then have "?remote \<in> set (fulfilledValues ?rs)" by (rule fulfilledValues_member)
      moreover have "snd (getGitHubFiles rt env) = Inr (fulfilledValues ?rs)"
        by (simp add: getGitHubFiles_listed[OF l])
      ultimately show ?thesis by blast
    qed
    show ?thesis using key rest promise returned by (intro exI[of _ ?d]) blast
  qed
  show ?thesis using one two by blast
qed

lemma ex_content_key_parse:
  "matter exRuntimeContentKey exDocContentKey = Inr ([''content'' \<mapsto> JStr ''x''], ''hello'')"
proof -
  have "exDocContentKey \<noteq> exDoc" by (simp add: exDoc_def exDocContentKey_def)
  then show ?thesis by (simp add: exRuntimeContentKey_def exRuntime_def exMatter_def)
qed

lemma ex_content_key_fetch:
  "fetch exRuntimeContentKey u hs = Inr (exResponse 200 ''OK'' [] exTree exDocContentKey)"
  by (simp add: exRuntimeContentKey_def exRuntime_def exNetContentKey_def)

lemma ex_content_key_paths:
  "path_relative exRuntimeContentKey ''content/docs'' ''content/docs/index.md'' = ''index.md''"
  "path_relative exRuntimeContentKey ''content/docs''
     (path_join exRuntimeContentKey (cwd exRuntimeContentKey) ''/content/docs/index.md'') = ''index.md''"
  "glob exRuntimeContentKey = [(''/content/docs/index.md'', exDocContentKey)]"
  by (simp_all add: exRuntimeContentKey_def exRuntime_def)

lemma ex_content_key_local:
  "getLocalFiles exRuntimeContentKey = Inr [Page ''index.md'' [''content'' \<mapsto> JStr ''hello'']]"
proof -
  have e: "extname ''/content/docs/index.md'' = ''.md'' \<or> extname ''/content/docs/index.md'' = ''.mdx''"
    by (simp add: ex_extname)
  show ?thesis
    by (simp add: getLocalFiles_def ex_content_key_paths localFile_page[OF e ex_content_key_parse])
qed

lemma ex_content_key_remote:
  "snd (getGitHubFiles exRuntimeContentKey exEnv) =
     Inr [Page ''index.md'' [''content'' \<mapsto> JStr ''hello'']]"
proof -
  have e: "extname (path (exItem ''content/docs/index.md'' Blob)) = ''.md'' \<or>
      extname (path (exItem ''content/docs/index.md'' Blob)) = ''.mdx''"
    by (simp add: ex_fields ex_extname)
  have t: "resp_text (exResponse 200 ''OK'' [] exTree exDocContentKey) = Inr exDocContentKey"
    by (simp add: exResponse_def)
  have index: "fileResult exRuntimeContentKey exEnv (getGitHubHeaders exEnv)
      (exItem ''content/docs/index.md'' Blob) =
      ([], Fulfilled (Some (Page ''index.md'' [''content'' \<mapsto> JStr ''hello''])))"
    using fileResult_page[OF e ex_content_key_parse ex_content_key_fetch ex_ok t, of exEnv
        "getGitHubHeaders exEnv"]
    by (simp add: ex_fields ex_content_key_paths)
  have logo: "fileResult exRuntimeContentKey exEnv (getGitHubHeaders exEnv)
      (exItem ''content/docs/logo.png'' Blob) = ([], Fulfilled None)"
    by (simp add: fileResult_def ex_content_key_fetch ex_ok t ex_fields ex_extname)
  show ?thesis
    by (simp add: getGitHubFiles_listed[OF ex_owner_repo ex_content_key_fetch ex_ok ex_json]
        ex_contentFiles index logo)
qed

theorem content_key_is_body_witness:
  "matter exRuntimeContentKey exDocContentKey = Inr ([''content'' \<mapsto> JStr ''x''], ''hello'') \<and>
   getLocalFiles exRuntimeContentKey = Inr [Page ''index.md'' [''content'' \<mapsto> JStr ''hello'']] \<and>
   snd (getGitHubFiles exRuntimeContentKey exEnv) =
     Inr [Page ''index.md'' [''content'' \<mapsto> JStr ''hello'']] \<and>
   (\<exists>d. d ''content'' = Some (JStr ''hello'') \<and>
      Page ''index.md'' d \<in> set [Page ''index.md'' [''content'' \<mapsto> JStr ''hello'']])"
proof -
  let ?rt = "exRuntimeContentKey"
  let ?file = "exItem ''content/docs/index.md'' Blob"
  let ?served = "exResponse 200 ''OK'' [] exTree exDocContentKey"
  let ?pages = "[Page ''index.md'' [''content'' \<mapsto> JStr ''hello'']]"
  have e: "extname ''/content/docs/index.md'' = ''.md'' \<or> extname ''/content/docs/index.md'' = ''.mdx''"
    by (simp add: ex_extname)
  have e': "extname ''content/docs/index.md'' = ''.md'' \<or> extname ''content/docs/index.md'' = ''.mdx''"
    by (simp add: ex_extname)
  have k: "[''content'' \<mapsto> JStr ''x''] ''content'' = Some (JStr ''x'')" by simp
  have g: "(''/content/docs/index.md'', exDocContentKey) \<in> set (glob ?rt) \<and>
      getLocalFiles ?rt = Inr ?pages"
    by (simp add: ex_content_key_paths ex_content_key_local)
  have r: "path ?file = ''content/docs/index.md'' \<and>
      fetch ?rt (fileUrl exEnv ?file) (getGitHubHeaders exEnv) = Inr ?served \<and>
      ok ?served \<and> resp_text ?served = Inr exDocContentKey"
    by (simp add: ex_fields ex_content_key_fetch ex_ok) (simp add: exResponse_def)
  have l: "truthy (GITHUB_OWNER exEnv) \<and> truthy (GITHUB_REPO exEnv) \<and>
      fetch ?rt (apiUrl exEnv) (getGitHubHeaders exEnv) = Inr ?served \<and> ok ?served \<and>
      resp_json ?served = Inr \<lparr>sha = ''0'', url = [], truncated = False, tree = exTree\<rparr> \<and>
      ?file \<in> set (contentFiles exEnv (tree \<lparr>sha = ''0'', url = [], truncated = False, tree = exTree\<rparr>))"
    using ex_owner_repo by (simp add: ex_content_key_fetch ex_ok ex_json ex_contentFiles)
  from content_key_is_body[where files = ?pages, OF e ex_content_key_parse k, THEN conjunct1]
  obtain d where d: "d ''content'' = Some (JStr ''hello'')"
    and dl: "(''/content/docs/index.md'', exDocContentKey) \<in> set (glob ?rt) \<and>
        getLocalFiles ?rt = Inr ?pages \<longrightarrow>
        Page (path_relative ?rt ''content/docs'' (path_join ?rt (cwd ?rt) ''/content/docs/index.md'')) d
          \<in> set ?pages"
    by blast
  have local: "Page ''index.md'' d \<in> set ?pages"
    using dl g by (simp add: ex_content_key_paths)
  from content_key_is_body[where response = ?served
        and data = "\<lparr>sha = ''0'', url = [], truncated = False, tree = exTree\<rparr>",
      OF e' ex_content_key_parse k, THEN conjunct2, THEN mp, OF r]
  obtain d' remote where "d' ''content'' = Some (JStr ''hello'')"
    and "snd (getGitHubFiles ?rt exEnv) = Inr remote"
    and "Page (path_relative ?rt (GITHUB_CONTENT_PATH exEnv) ''content/docs/index.md'') d' \<in> set remote"
    using l by blast
  then have remote: "snd (getGitHubFiles ?rt exEnv) = Inr ?pages"
    by (simp add: ex_content_key_remote)
  show ?thesis
    using ex_content_key_parse g remote d local by blast
qed

subsection \<open>The mode dispatcher\<close>

lemma validateEnv_production:
  assumes "snd (validateEnv enumMessage penv) = Inr env" and "NODE_ENV env = Production"
  shows "truthy (GITHUB_OWNER env) \<and> truthy (GITHUB_REPO env) \<and> GITHUB_CONTENT_PATH env \<noteq> []"
  using assms
  by (auto simp add: validateEnv_def safeParse_def superRefine_def Let_def
      split: sum.splits prod.splits if_splits)

lemma tryBlock_first:
  "\<exists>out. fst (tryBlock rt env) = Fetch (apiUrl env) (getGitHubHeaders env) # out"
  by (simp add: tryBlock_def Let_def split: sum.splits option.splits)

lemma getGitHubFiles_first:
  assumes "truthy (GITHUB_OWNER env)" and "truthy (GITHUB_REPO env)"
  shows "\<exists>out. fst (getGitHubFiles rt env) = Fetch (apiUrl env) (getGitHubHeaders env) # out"
proof -
  obtain out where o: "fst (tryBlock rt env) = Fetch (apiUrl env) (getGitHubHeaders env) # out"
    using tryBlock_first by blast
  obtain tr res where t: "tryBlock rt env = (tr, res)" by (cases "tryBlock rt env")
  show ?thesis using assms o t by (cases res) (simp_all add: getGitHubFiles_def)
qed

lemma getLocalFiles_fetch: "getLocalFiles (rt\<lparr>fetch := net\<rparr>) = getLocalFiles rt"
proof -
  have "localFile (rt\<lparr>fetch := net\<rparr>) = localFile rt"
    by (rule ext) (simp add: localFile_def Let_def split: prod.splits)
  then show ?thesis by (simp add: getLocalFiles_def)
qed

text \<open>
  C8. For a configuration that \<open>validateEnv\<close> accepts: in development mode \<open>getFiles\<close>
  is local acquisition followed by the line with the number of files; it issues no
  request and its outcome is the same whatever the network would answer. In production
  mode its result is that of \<open>getGitHubFiles\<close>, whose trace it extends, and the first
  thing that happens is the listing request.
\<close>

theorem dispatch_by_mode:
  assumes "snd (validateEnv enumMessage penv) = Inr env"
  shows "(NODE_ENV env = Development \<longrightarrow>
            getFiles rt env =
              (case getLocalFiles rt of
                 Inl err \<Rightarrow> ([], Inl err)
               | Inr files \<Rightarrow>
                   ([ConsoleInfo (''development Loaded '' @ show_nat (length files) @ '' files'')],
                    Inr files)) \<and>
            filter isFetch (fst (getFiles rt env)) = [] \<and>
            (\<forall>net. getFiles (rt\<lparr>fetch := net\<rparr>) env = getFiles rt env)) \<and>
         (NODE_ENV env = Production \<longrightarrow>
            snd (getFiles rt env) = snd (getGitHubFiles rt env) \<and>
            prefix (fst (getGitHubFiles rt env)) (fst (getFiles rt env)) \<and>
            (\<exists>out. fst (getFiles rt env) = Fetch (apiUrl env) (getGitHubHeaders env) # out))"
proof -
  have dev: "getFiles rt' env =
              (case getLocalFiles rt' of
                 Inl err \<Rightarrow> ([], Inl err)
               | Inr files \<Rightarrow>
                   ([ConsoleInfo (''development Loaded '' @ show_nat (length files) @ '' files'')],
                    Inr files))"
    if "NODE_ENV env = Development" for rt'
    using that by (simp add: getFiles_def node_env_string_def split: sum.splits)
  have dev2: "filter isFetch (fst (getFiles rt env)) = []" if "NODE_ENV env = Development"
    unfolding dev[OF that] by (simp split: sum.splits)
  have dev3: "getFiles (rt\<lparr>fetch := net\<rparr>) env = getFiles rt env"
    if "NODE_ENV env = Development" for net
    unfolding dev[OF that] by (simp only: getLocalFiles_fetch)
  have prod: "snd (getFiles rt env) = snd (getGitHubFiles rt env) \<and>
            prefix (fst (getGitHubFiles rt env)) (fst (getFiles rt env))"
    if "NODE_ENV env = Production"
    using that by (cases "getGitHubFiles rt env") (simp add: getFiles_def split: sum.splits)
  have prod2: "\<exists>out. fst (getFiles rt env) = Fetch (apiUrl env) (getGitHubHeaders env) # out"
    if p: "NODE_ENV env = Production"
  proof -
    obtain out where o: "fst (getGitHubFiles rt env) = Fetch (apiUrl env) (getGitHubHeaders env) # out"
      using getGitHubFiles_first validateEnv_production[OF assms p] by blast
    obtain more where "fst (getFiles rt env) = fst (getGitHubFiles rt env) @ more"
      using prod[OF p] by (auto simp add: prefix_def)
    then show ?thesis using o by simp
  qed
  show ?thesis using dev dev2 dev3 prod prod2 by blast
qed

lemma ex_validate_development:
  "validateEnv exEnumMessage (exProcessEnv [(''NODE_ENV'', ''development'')]) =
     ([], Inr (exEnv\<lparr>NODE_ENV := Development, GITHUB_OWNER := None, GITHUB_REPO := None\<rparr>))"
  by (simp add: validateEnv_def safeParse_def parse_NODE_ENV_def parse_object_def superRefine_def
      exProcessEnv_def exEnv_def)

lemma ex_validate_production:
  "validateEnv exEnumMessage
     (exProcessEnv [(''NODE_ENV'', ''production''), (''GITHUB_OWNER'', ''acme''),
                    (''GITHUB_REPO'', ''site'')]) =
     ([ConsoleWarn ''GITHUB_TOKEN is not set. You may encounter rate limiting issues.''],
      Inr exEnv)"
  by (simp add: validateEnv_def safeParse_def parse_NODE_ENV_def parse_object_def superRefine_def
      exProcessEnv_def exEnv_def truthy_def)

theorem dispatch_by_mode_witness:
  "getFiles (exRuntime (exNetServed exTree []))
      (exEnv\<lparr>NODE_ENV := Development, GITHUB_OWNER := None, GITHUB_REPO := None\<rparr>) =
     ([ConsoleInfo ''development Loaded 1 files''],
      Inr [Page ''index.md'' [''title'' \<mapsto> JStr ''A'', ''content'' \<mapsto> JStr ''hello'']]) \<and>
   snd (getFiles (exRuntime (exNetServed exTree [])) exEnv) =
     Inr [Page ''index.md'' [''title'' \<mapsto> JStr ''A'', ''content'' \<mapsto> JStr ''hello'']] \<and>
   hd (fst (getFiles (exRuntime (exNetServed exTree [])) exEnv)) =
     Fetch ''https://api.github.com/repos/acme/site/git/trees/main?recursive=1''
       [(''Accept'', ''application/vnd.github.v3+json'')]"
proof -
  let ?rt = "exRuntime (exNetServed exTree [])"
  let ?dev = "exEnv\<lparr>NODE_ENV := Development, GITHUB_OWNER := None, GITHUB_REPO := None\<rparr>"
  have vd: "snd (validateEnv exEnumMessage (exProcessEnv [(''NODE_ENV'', ''development'')])) = Inr ?dev"
    by (simp add: ex_validate_development)
  have vp: "snd (validateEnv exEnumMessage
     (exProcessEnv [(''NODE_ENV'', ''production''), (''GITHUB_OWNER'', ''acme''),
                    (''GITHUB_REPO'', ''site'')])) = Inr exEnv"
    by (simp add: ex_validate_production)
  have modeD: "NODE_ENV ?dev = Development" by simp
  have modeP: "NODE_ENV exEnv = Production" by (simp add: exEnv_def)
  have e: "extname ''/content/docs/index.md'' = ''.md'' \<or> extname ''/content/docs/index.md'' = ''.mdx''"
    by (simp add: ex_extname)
  have m: "matter ?rt exDoc = Inr ([''title'' \<mapsto> JStr ''A''], ''hello'')"
    by (simp add: exRuntime_def exMatter_def)
  have l: "getLocalFiles ?rt =
      Inr [Page ''index.md'' [''title'' \<mapsto> JStr ''A'', ''content'' \<mapsto> JStr ''hello'']]"
  proof -
    have "getLocalFiles ?rt = flatMap (localFile ?rt) [(''/content/docs/index.md'', exDoc)]"
      by (simp add: getLocalFiles_def exRuntime_def)
    then show ?thesis using localFile_page[OF e m] by (simp add: exRuntime_def)
  qed
  have one: "getFiles ?rt ?dev =
     ([ConsoleInfo ''development Loaded 1 files''],
      Inr [Page ''index.md'' [''title'' \<mapsto> JStr ''A'', ''content'' \<mapsto> JStr ''hello'']])"
    using dispatch_by_mode[OF vd, of ?rt, THEN conjunct1, THEN mp, OF modeD, THEN conjunct1]
    by (simp add: l show_nat_digit digit_char_def)
  note p = dispatch_by_mode[OF vp, of ?rt, THEN conjunct2, THEN mp, OF modeP]
  have two: "snd (getFiles ?rt exEnv) =
     Inr [Page ''index.md'' [''title'' \<mapsto> JStr ''A'', ''content'' \<mapsto> JStr ''hello'']]"
    using p[THEN conjunct1] by (simp add: ex_run_served)
  have three: "hd (fst (getFiles ?rt exEnv)) =
     Fetch ''https://api.github.com/repos/acme/site/git/trees/main?recursive=1''
       [(''Accept'', ''application/vnd.github.v3+json'')]"
    using p[THEN conjunct2, THEN conjunct2] by (auto simp add: ex_urls)
  show ?thesis using one two three by (intro conjI)
qed

subsection \<open>Validation of the environment\<close>

lemma violations_set: "set (violations penv) = {c. violated penv c}"
proof -
  have "c \<in> set [ModeValid, OwnerGiven, RepoGiven, ContentPathGiven]" for c
    by (cases c) simp_all
  then have "set [ModeValid, OwnerGiven, RepoGiven, ContentPathGiven] = UNIV"
    by blast
  then show ?thesis by (simp only: violations_def set_filter) simp
qed

lemma validateEnv_invalid_mode:
  assumes "penv ''NODE_ENV'' \<noteq> Some ''development''" and "penv ''NODE_ENV'' \<noteq> Some ''production''"
  shows "validateEnv enumMessage penv =
     ([ConsoleError (''NODE_ENV: '' @ enumMessage (penv ''NODE_ENV''))],
      Inl (Error (''NODE_ENV: '' @ enumMessage (penv ''NODE_ENV''))))"
    and "violations penv = [ModeValid]"
  using assms
  by (simp_all add: validateEnv_def safeParse_def parse_NODE_ENV_def humanReadableZodError_def
      violations_def violated_def Let_def)

lemma violations_development:
  assumes "penv ''NODE_ENV'' = Some ''development''"
  shows "violations penv = []"
  using assms by (simp add: violations_def violated_def)

lemma production_issues:
  assumes "penv ''NODE_ENV'' = Some ''production''"
  shows "map (\<lambda>e. join ''.'' (issue_path e) @ '': '' @ issue_message e)
           (snd (superRefine (parse_object penv Production))) =
         map (constraintLine enumMessage penv) (violations penv)"
  using assms
  by (simp add: superRefine_def parse_object_def violations_def violated_def constraintLine_def
      split: option.splits)

lemma validateEnv_production_issues:
  assumes "penv ''NODE_ENV'' = Some ''production''" and "violations penv \<noteq> []"
  shows "validateEnv enumMessage penv =
     (fst (superRefine (parse_object penv Production)) @
      [ConsoleError (join [CHR 0x0A] (map (constraintLine enumMessage penv) (violations penv)))],
      Inl (Error (join [CHR 0x0A] (map (constraintLine enumMessage penv) (violations penv)))))"
proof -
  obtain out issues where s: "superRefine (parse_object penv Production) = (out, issues)"
    by (cases "superRefine (parse_object penv Production)")
  have m: "map (\<lambda>e. join ''.'' (issue_path e) @ '': '' @ issue_message e) issues =
      map (constraintLine enumMessage penv) (violations penv)"
    using production_issues[where penv = penv and enumMessage = enumMessage, OF assms(1)] s by simp
  then have "issues \<noteq> []" using assms(2) by auto
  then show ?thesis
    using assms(1) s m
    by (simp add: validateEnv_def safeParse_def parse_NODE_ENV_def humanReadableZodError_def Let_def)
qed

text \<open>
  C7. When the environment violates at least one constraint, \<open>validateEnv\<close> throws one
  error whose message has one line for every violated constraint, each naming the
  variable at fault, joined by newlines; and the last thing it does before throwing is to
  print that same message with \<^verbatim>\<open>console.error\<close>.
\<close>

theorem validation_reports_all:
  assumes "\<exists>c. violated penv c"
  shows "snd (validateEnv enumMessage penv) =
           Inl (Error (join [CHR 0x0A] (map (constraintLine enumMessage penv) (violations penv)))) \<and>
         fst (validateEnv enumMessage penv) \<noteq> [] \<and>
         last (fst (validateEnv enumMessage penv)) =
           ConsoleError (join [CHR 0x0A] (map (constraintLine enumMessage penv) (violations penv))) \<and>
         set (violations penv) = {c. violated penv c} \<and>
         distinct (violations penv)"
proof -
  have d: "distinct (violations penv)" by (simp add: violations_def)
  have ne: "violations penv \<noteq> []"
    using assms violations_set[of penv] by auto
  consider (dev) "penv ''NODE_ENV'' = Some ''development''"
    | (prod) "penv ''NODE_ENV'' = Some ''production''"
    | (other) "penv ''NODE_ENV'' \<noteq> Some ''development''" "penv ''NODE_ENV'' \<noteq> Some ''production''"
    by blast
  then show ?thesis
  proof cases
    case dev
    then show ?thesis using ne violations_development[where penv = penv] by simp
  next
    case prod
    show ?thesis
      using d by (simp add: validateEnv_production_issues[where penv = penv, OF prod ne] violations_set)
  next
    case other
    show ?thesis
      using d by (simp add: validateEnv_invalid_mode[where penv = penv, OF other] violations_set[symmetric]
          constraintLine_def)
  qed
qed

theorem validation_reports_all_witness:
  "violated (exProcessEnv [(''NODE_ENV'', ''production''), (''GITHUB_CONTENT_PATH'', [])]) OwnerGiven \<and>
   violations (exProcessEnv [(''NODE_ENV'', ''production''), (''GITHUB_CONTENT_PATH'', [])]) =
     [OwnerGiven, RepoGiven, ContentPathGiven] \<and>
   snd (validateEnv exEnumMessage
          (exProcessEnv [(''NODE_ENV'', ''production''), (''GITHUB_CONTENT_PATH'', [])])) =
     Inl (Error (''GITHUB_OWNER: GITHUB_OWNER is required in production mode.'' @ [CHR 0x0A] @
                 ''GITHUB_REPO: GITHUB_REPO is required in production mode.'' @ [CHR 0x0A] @
                 ''GITHUB_CONTENT_PATH: GITHUB_CONTENT_PATH is required in production mode.'')) \<and>
   last (fst (validateEnv exEnumMessage
          (exProcessEnv [(''NODE_ENV'', ''production''), (''GITHUB_CONTENT_PATH'', [])]))) =
     ConsoleError (''GITHUB_OWNER: GITHUB_OWNER is required in production mode.'' @ [CHR 0x0A] @
                 ''GITHUB_REPO: GITHUB_REPO is required in production mode.'' @ [CHR 0x0A] @
                 ''GITHUB_CONTENT_PATH: GITHUB_CONTENT_PATH is required in production mode.'')"
proof -
  let ?penv = "exProcessEnv [(''NODE_ENV'', ''production''), (''GITHUB_CONTENT_PATH'', [])]"
  have v: "violated ?penv OwnerGiven"
    by (simp add: violated_def exProcessEnv_def truthy_def)
  then have e: "\<exists>c. violated ?penv c" by blast
  have vs: "violations ?penv = [OwnerGiven, RepoGiven, ContentPathGiven]"
    by (simp add: violations_def violated_def exProcessEnv_def truthy_def)
  note t = validation_reports_all[where penv = ?penv and enumMessage = exEnumMessage, OF e]
  have one: "snd (validateEnv exEnumMessage ?penv) =
     Inl (Error (''GITHUB_OWNER: GITHUB_OWNER is required in production mode.'' @ [CHR 0x0A] @
                 ''GITHUB_REPO: GITHUB_REPO is required in production mode.'' @ [CHR 0x0A] @
                 ''GITHUB_CONTENT_PATH: GITHUB_CONTENT_PATH is required in production mode.''))"
    using t[THEN conjunct1] by (simp add: vs constraintLine_def)
  have two: "last (fst (validateEnv exEnumMessage ?penv)) =
     ConsoleError (''GITHUB_OWNER: GITHUB_OWNER is required in production mode.'' @ [CHR 0x0A] @
                 ''GITHUB_REPO: GITHUB_REPO is required in production mode.'' @ [CHR 0x0A] @
                 ''GITHUB_CONTENT_PATH: GITHUB_CONTENT_PATH is required in production mode.'')"
    using t[THEN conjunct2, THEN conjunct2, THEN conjunct1] by (simp add: vs constraintLine_def)
  show ?thesis using v vs one two by (intro conjI)
qed

end
